theory Spec2Isabelle
  imports Complex_Main "HOL-Library.Word" "HOL-Library.Multiset"
begin

section \<open>Values of the Go program\<close>

text \<open>
  A Go byte is an 8-bit word. A Go \<^verbatim>\<open>error\<close> is its message, with \<open>None\<close> for
  \<^verbatim>\<open>nil\<close>. A \<^verbatim>\<open>float64\<close> is kept up to the comparison the program makes on
  it: a number, an infinity or NaN (the two zeros compare equal in Go and are one value
  here).
\<close>

type_synonym byte = "8 word"

type_synonym err = "string option"

datatype float64 = Finite rat | PosInf | NegInf | NaN

text \<open>Go's \<^verbatim>\<open>x != y\<close> on \<^verbatim>\<open>float64\<close>: NaN differs from every value, itself included.\<close>

definition float_ne :: "float64 \<Rightarrow> float64 \<Rightarrow> bool" where
  "float_ne x y = (if x = NaN then True else if y = NaN then True else x \<noteq> y)"

text \<open>The builtin \<^verbatim>\<open>make([]byte, n)\<close> gives \<open>n\<close> zero bytes; \<^verbatim>\<open>copy(dst, src)\<close>
  overwrites the first \<open>min (len dst) (len src)\<close> bytes of \<open>dst\<close>.\<close>

definition go_make :: "nat \<Rightarrow> byte list" where
  "go_make n = replicate n 0"

definition go_copy :: "byte list \<Rightarrow> byte list \<Rightarrow> byte list" where
  "go_copy dst src =
     take (min (length dst) (length src)) src @ drop (min (length dst) (length src)) dst"

section \<open>The device library as seen from the program\<close>

text \<open>
  An \<^verbatim>\<open>aravis.Buffer\<close> is a handle, here a number. The calls the program makes on the
  camera, the stream, the mutexes, the logger and the response writer are recorded, in
  program order, as events.
\<close>

type_synonym buffer = nat

text \<open>Modelled from the spec: the declaration of the buffer status constants is not
  part of the sources; the spec gives the status of an acquired buffer as one of Success,
  Timeout and DeviceStatusError.\<close>

datatype buffer_status = BUFFER_STATUS_SUCCESS | BUFFER_STATUS_TIMEOUT | BUFFER_STATUS_ERROR

text \<open>The three mutexes: the package-level \<^verbatim>\<open>mu\<close>, \<^verbatim>\<open>is.mu\<close> and \<^verbatim>\<open>is.out.mu\<close>.\<close>

datatype mutex = Mu | Is_mu | Out_mu

datatype arg = Float float64 | Buf buffer | Str string

datatype event =
    Lock mutex
  | Unlock mutex
  | CreateStream
  | StreamClose
  | NewBuffer nat
  | PushBuffer buffer
  | TimeoutPopBuffer
  | StartAcquisition
  | StopAcquisition
  | SetGain float64
  | SetExposureTime float64
  | Configure string
  | Log string "arg list"
  | ResponseWrite "byte list"

section \<open>The data of the image source\<close>

text \<open>
  \<^verbatim>\<open>outputBuffer.front\<close> is a slice: a reference into the store of byte arrays, or
  \<^verbatim>\<open>nil\<close>. \<^verbatim>\<open>outputBuffer.back\<close> is a \<^verbatim>\<open>bytes.Buffer\<close>, of which the program
  uses \<^verbatim>\<open>Write\<close> (through the encoder), \<^verbatim>\<open>Len\<close>, \<^verbatim>\<open>Bytes\<close> and \<^verbatim>\<open>Reset\<close>:
  its contents are a byte list. The mutexes of the structs appear as events.
\<close>

record outputBuffer =
  front :: "nat option"
  "back" :: "byte list"

record imageSource =
  exposure :: float64
  gain :: float64
  width :: int
  height :: int
  payloadSize :: nat
  compression :: int
  out :: outputBuffer

text \<open>
  The world of a run: the image source, the store of the byte arrays that \<^verbatim>\<open>make\<close>
  allocated (the addresses below \<open>brk\<close> are in use), the buffers the stream holds, and the
  events so far.
\<close>

record world =
  isrc :: imageSource
  heap :: "nat \<Rightarrow> byte list"
  brk :: nat
  stream :: "buffer list"
  trace :: "event list"

definition emit :: "event \<Rightarrow> world \<Rightarrow> world" where
  "emit e w = w\<lparr>trace := trace w @ [e]\<rparr>"

definition set_out :: "outputBuffer \<Rightarrow> world \<Rightarrow> world" where
  "set_out ob w = w\<lparr>isrc := (isrc w)\<lparr>out := ob\<rparr>\<rparr>"

text \<open>The bytes a slice reference denotes; the \<^verbatim>\<open>nil\<close> slice has none.\<close>

definition slice_bytes :: "world \<Rightarrow> nat option \<Rightarrow> byte list" where
  "slice_bytes w p = (case p of None \<Rightarrow> [] | Some a \<Rightarrow> heap w a)"

text \<open>Modelled from the spec: the stream type of the library is not part of the sources.
  By the spec, \<^verbatim>\<open>acquireNext\<close> lends one buffer of the stream's pool to the caller,
  together with a status, and \<^verbatim>\<open>recycle\<close> gives a buffer back to the pool. Which buffer
  comes out is the device's choice and a parameter here.\<close>

definition stream_TimeoutPopBuffer :: "buffer \<Rightarrow> world \<Rightarrow> world" where
  "stream_TimeoutPopBuffer b w = emit TimeoutPopBuffer (w\<lparr>stream := remove1 b (stream w)\<rparr>)"

definition stream_PushBuffer :: "buffer \<Rightarrow> world \<Rightarrow> world" where
  "stream_PushBuffer b w = emit (PushBuffer b) (w\<lparr>stream := stream w @ [b]\<rparr>)"

section \<open>The acquisition thread\<close>

text \<open>
  What the environment decides in one iteration of the loop of \<^verbatim>\<open>cameraThread\<close>:
  whether the context is done, the buffer \<^verbatim>\<open>TimeoutPopBuffer\<close> returns and its
  status, the bytes \<^verbatim>\<open>encoder.Encode\<close> writes to \<^verbatim>\<open>is.out.back\<close> and the error it
  returns. The image handed to the encoder is built from the buffer's data and the fixed
  width and height; it has no other use, and the encoder's outcome is taken as given.
  The encoder of the program is a \<^verbatim>\<open>png.Encoder\<close> that writes to a
  \<^verbatim>\<open>bytes.Buffer\<close>: these writes do not fail, and on a gray image the only error of
  \<^verbatim>\<open>Encode\<close> is the check of the image size, which comes before its first write. A
  frame with an error therefore has no bytes written when it comes from this encoder.
\<close>

record frame =
  ctx_done :: bool
  popped :: buffer
  status :: buffer_status
  encoded :: "byte list"
  encode_err :: err

text \<open>The body of the loop, from \<^verbatim>\<open>TimeoutPopBuffer\<close> to the end of the publication.\<close>

definition iteration :: "frame \<Rightarrow> world \<Rightarrow> world" where
  "iteration f w =
     (let buffer = popped f;
          w1 = stream_TimeoutPopBuffer buffer w
      in if status f \<noteq> BUFFER_STATUS_SUCCESS then stream_PushBuffer buffer w1
         else
           let w2 = set_out ((out (isrc w1))\<lparr>back := back (out (isrc w1)) @ encoded f\<rparr>) w1
           in (case encode_err f of
                 Some e \<Rightarrow>
                   stream_PushBuffer buffer
                     (emit (Log ''encode error buffer: %+v'' [Buf buffer]) (emit (Log e []) w2))
               | None \<Rightarrow>
                   let w3 = stream_PushBuffer buffer w2;
                       w4 = emit (Lock Out_mu) w3;
                       a = brk w4;
                       w5 = (set_out ((out (isrc w4))\<lparr>front := Some a\<rparr>) w4)
                              \<lparr>heap := (heap w4)(a := go_make (length (back (out (isrc w4))))),
                               brk := Suc a\<rparr>;
                       w6 = w5\<lparr>heap := (heap w5)(a := go_copy (heap w5 a) (back (out (isrc w5))))\<rparr>;
                       w7 = set_out ((out (isrc w6))\<lparr>back := []\<rparr>) w6
                   in emit (Unlock Out_mu) w7))"

text \<open>
  The loop runs until the context is done. The list holds what the environment decides
  in the iterations observed; when it is used up the thread is still running.
\<close>

datatype thread_result = Returned err | Running

fun acquisition_loop :: "frame list \<Rightarrow> world \<Rightarrow> thread_result \<times> world" where
  "acquisition_loop [] w = (Running, w)"
| "acquisition_loop (f # fs) w =
     (if ctx_done f then (Returned None, w) else acquisition_loop fs (iteration f w))"

text \<open>The two calls of \<^verbatim>\<open>aravis.NewBuffer\<close>, each followed by \<^verbatim>\<open>PushBuffer\<close>; the
  first error ends the function.\<close>

fun add_buffers :: "(buffer \<times> err) list \<Rightarrow> nat \<Rightarrow> world \<Rightarrow> err \<times> world" where
  "add_buffers [] sz w = (None, w)"
| "add_buffers ((b, e) # rs) sz w =
     (case e of
        Some msg \<Rightarrow> (Some msg, emit (NewBuffer sz) w)
      | None \<Rightarrow> add_buffers rs sz (stream_PushBuffer b (emit (NewBuffer sz) w)))"

record thread_env =
  CreateStream_err :: err
  NewBuffer_result :: "nat \<Rightarrow> buffer \<times> err"
  frames :: "frame list"

text \<open>The deferred calls run when the function returns, last registered first.\<close>

definition cameraThread :: "thread_env \<Rightarrow> world \<Rightarrow> thread_result \<times> world" where
  "cameraThread env w =
     (case CreateStream_err env of
        Some e \<Rightarrow> (Returned (Some e), emit CreateStream w)
      | None \<Rightarrow>
          (case add_buffers (map (NewBuffer_result env) [0..<2]) (payloadSize (isrc w))
                  (emit CreateStream (w\<lparr>stream := []\<rparr>)) of
             (Some e, w2) \<Rightarrow> (Returned (Some e), emit StreamClose w2)
           | (None, w2) \<Rightarrow>
               (case acquisition_loop (frames env) (emit StartAcquisition w2) of
                  (Running, w4) \<Rightarrow> (Running, w4)
                | (Returned e, w4) \<Rightarrow>
                    (Returned e, emit StreamClose (emit StopAcquisition w4)))))"

section \<open>The response writer\<close>

text \<open>
  The \<^verbatim>\<open>http.ResponseWriter\<close> of the standard library, as far as the handlers use
  it: the Content-Type of the header map, the status and Content-Type sent by the first
  \<^verbatim>\<open>WriteHeader\<close> (later calls change nothing), and the body, which is the bytes handed
  to \<^verbatim>\<open>Write\<close>. \<^verbatim>\<open>Write\<close> sends the header with status 200 when none was sent. \<^verbatim>\<open>http.Error\<close> sets the Content-Type to
  plain text, writes the header with the given status and prints the message and a line
  feed. A handler that returns without writing is answered with status 200.
\<close>

record ResponseWriter =
  header_ContentType :: "string option"
  sent :: "(nat \<times> string option) option"
  body :: "byte list"

definition NewResponseWriter :: ResponseWriter where
  "NewResponseWriter = \<lparr>header_ContentType = None, sent = None, body = []\<rparr>"

definition WriteHeader :: "nat \<Rightarrow> ResponseWriter \<Rightarrow> ResponseWriter" where
  "WriteHeader c rw =
     (case sent rw of None \<Rightarrow> rw\<lparr>sent := Some (c, header_ContentType rw)\<rparr> | Some x \<Rightarrow> rw)"

definition Write :: "byte list \<Rightarrow> ResponseWriter \<Rightarrow> ResponseWriter" where
  "Write bs rw = (let rw1 = WriteHeader 200 rw in rw1\<lparr>body := body rw1 @ bs\<rparr>)"

definition bytes_of :: "string \<Rightarrow> byte list" where
  "bytes_of s = map of_char s"

definition http_Error :: "string \<Rightarrow> nat \<Rightarrow> ResponseWriter \<Rightarrow> ResponseWriter" where
  "http_Error msg c rw =
     Write (bytes_of msg @ [0x0A])
       (WriteHeader c (rw\<lparr>header_ContentType := Some ''text/plain; charset=utf-8''\<rparr>))"

definition status_code :: "ResponseWriter \<Rightarrow> nat" where
  "status_code rw = (case sent rw of None \<Rightarrow> 200 | Some (c, t) \<Rightarrow> c)"

section \<open>The request handler over the image source\<close>

text \<open>
  A request: whether its context is done when the handler looks, the form values (the
  empty string for a parameter that is absent), and the error \<^verbatim>\<open>w.Write\<close> returns.
  \<^verbatim>\<open>strconv.ParseFloat\<close> is a parameter of the handler: it returns a value and an
  error, and the handler drops the error.
\<close>

record request =
  Context_Done :: bool
  FormValue :: "string \<Rightarrow> string"
  Write_err :: err

text \<open>The three blocks of the handler: the gain parameter, the exposure parameter, and
  the write of the published slice with \<^verbatim>\<open>is.out.mu\<close> held until the handler
  returns.\<close>

definition apply_gain :: "(string \<Rightarrow> float64 \<times> err) \<Rightarrow> request \<Rightarrow> world \<Rightarrow> world" where
  "apply_gain ParseFloat r w =
     (let gainStr = FormValue r ''gain''
      in if gainStr \<noteq> []
         then (let g = fst (ParseFloat gainStr)
               in if float_ne g (gain (isrc w))
                  then emit (Unlock Is_mu)
                         (emit (Log ''Gain: %f'' [Float g])
                           (emit (SetGain g)
                             ((emit (Lock Is_mu) w)\<lparr>isrc := (isrc w)\<lparr>gain := g\<rparr>\<rparr>)))
                  else w)
         else w)"

definition apply_exposure :: "(string \<Rightarrow> float64 \<times> err) \<Rightarrow> request \<Rightarrow> world \<Rightarrow> world" where
  "apply_exposure ParseFloat r w =
     (let exposureStr = FormValue r ''exposure''
      in if exposureStr \<noteq> []
         then (let x = fst (ParseFloat exposureStr)
               in if float_ne x (exposure (isrc w))
                  then emit (Unlock Is_mu)
                         (emit (Log ''Exposure: %f'' [Float x])
                           ((emit (SetExposureTime x) (emit (Lock Is_mu) w))
                              \<lparr>isrc := (isrc w)\<lparr>exposure := x\<rparr>\<rparr>))
                  else w)
         else w)"

definition write_front :: "request \<Rightarrow> world \<Rightarrow> ResponseWriter \<Rightarrow> world \<times> ResponseWriter" where
  "write_front r w rw =
     (let w3 = emit (Lock Out_mu) w;
          bs = slice_bytes w3 (front (out (isrc w3)));
          rw1 = Write bs rw;
          w4 = emit (ResponseWrite bs) w3;
          w5 = (case Write_err r of Some e \<Rightarrow> emit (Log e []) w4 | None \<Rightarrow> w4)
      in (emit (Unlock Out_mu) w5, rw1))"

definition servePNG ::
  "(string \<Rightarrow> float64 \<times> err) \<Rightarrow> request \<Rightarrow> world \<Rightarrow> ResponseWriter \<Rightarrow> world \<times> ResponseWriter" where
  "servePNG ParseFloat r w rw =
     (let w0 = emit (Lock Mu) w
      in if Context_Done r
         then (emit (Unlock Mu) (emit (Log ''request canceled'' []) w0), rw)
         else
           let w1 = apply_gain ParseFloat r w0;
               w2 = apply_exposure ParseFloat r w1;
               (w6, rw1) = write_front r w2 rw
           in (emit (Unlock Mu) w6, rw1))"

section \<open>Startup\<close>

text \<open>
  What the environment decides at startup: the flags, the results of the device calls of
  \<^verbatim>\<open>main\<close> (of which \<^verbatim>\<open>main\<close> drops every error but that of
  \<^verbatim>\<open>GetNumDevices\<close>), and what the acquisition thread meets. \<^verbatim>\<open>logger.Fatal\<close>
  prints its message and exits the process. The model of \<^verbatim>\<open>main\<close> ends where
  \<^verbatim>\<open>main\<close> waits for a signal, both goroutines started; the result of
  \<^verbatim>\<open>cameraThread\<close> is dropped there as in the source.
\<close>

record main_env =
  defaultExposure :: float64
  defaultGain :: float64
  GetNumDevices_result :: "nat \<times> err"
  GetDeviceId_result :: string
  NewCamera_err :: err
  GetPayloadSize_result :: nat
  GetRegion_result :: "int \<times> int"
  thread :: thread_env

datatype process = Fatal string | Serving world

definition BestSpeed :: int where
  "BestSpeed = - 2"

definition initial_world :: "main_env \<Rightarrow> world" where
  "initial_world env =
     \<lparr>isrc = \<lparr>exposure = defaultExposure env, gain = defaultGain env,
              width = fst (GetRegion_result env), height = snd (GetRegion_result env),
              payloadSize = GetPayloadSize_result env, compression = BestSpeed,
              out = \<lparr>front = None, back = []\<rparr>\<rparr>,
      heap = (\<lambda>a. []), brk = 0, stream = [],
      trace = [Configure ''UVSetUSBMode'', Configure ''SetRegion'',
               Configure ''SetExposureTimeAuto'', SetExposureTime (defaultExposure env),
               SetGain (defaultGain env), Configure ''SetFrameRate'',
               Configure ''SetAcquisitionMode'',
               Log ''Found camera: %s Exposure: %f, Gain: %f''
                 [Str (GetDeviceId_result env), Float (defaultExposure env),
                  Float (defaultGain env)]]\<rparr>"

definition main :: "main_env \<Rightarrow> process" where
  "main env =
     (case GetNumDevices_result env of
        (numDevices, Some e) \<Rightarrow> Fatal e
      | (numDevices, None) \<Rightarrow>
          if numDevices = 0 then Fatal ''No devices found. Exiting.''
          else Serving (emit (Log ''Listening...'' [])
                         (snd (cameraThread (thread env) (initial_world env)))))"

section \<open>The request handler over a camera\<close>

text \<open>
  The first program of the file serves each request by acquiring one frame. Its
  environment gives the errors of \<^verbatim>\<open>CreateStream\<close> and \<^verbatim>\<open>NewBuffer\<close>, the
  buffers, the status of the popped buffer, the writes \<^verbatim>\<open>png.Encode\<close> makes on the
  response writer and the error it returns. The result is the response and the calls
  made, the deferred ones last.
\<close>

record camera_request =
  cam_payloadSize :: nat
  cam_CreateStream_err :: err
  cam_NewBuffer_result :: "buffer \<times> err"
  cam_status :: buffer_status
  cam_encode_writes :: "byte list list"
  cam_encode_err :: err

definition servePNG_camera ::
  "float64 \<Rightarrow> float64 \<Rightarrow> camera_request \<Rightarrow> ResponseWriter \<Rightarrow> ResponseWriter \<times> event list" where
  "servePNG_camera exposureTime gain0 r rw =
     (let ev0 = [Configure ''UVSetUSBMode'', Configure ''SetRegion'',
                 Configure ''SetExposureTimeAuto'', SetExposureTime exposureTime,
                 SetGain gain0, Configure ''SetAcquisitionMode'', CreateStream];
          rw1 = (case cam_CreateStream_err r of
                   Some e \<Rightarrow> http_Error e 500 rw | None \<Rightarrow> rw);
          rw2 = (case snd (cam_NewBuffer_result r) of
                   Some e \<Rightarrow> http_Error e 500 rw1 | None \<Rightarrow> rw1);
          ev1 = ev0 @ [NewBuffer (cam_payloadSize r), PushBuffer (fst (cam_NewBuffer_result r)),
                       StartAcquisition, TimeoutPopBuffer]
      in if cam_status r \<noteq> BUFFER_STATUS_SUCCESS
         then (http_Error ''buffer error'' 500 rw2, ev1 @ [StopAcquisition, StreamClose])
         else
           let rw3 = foldl (\<lambda>x bs. Write bs x) rw2 (cam_encode_writes r);
               ev2 = (case cam_encode_err r of Some e \<Rightarrow> ev1 @ [Log e []] | None \<Rightarrow> ev1)
           in (rw3, ev2 @ [StopAcquisition, StreamClose]))"

section \<open>Reading the events\<close>

text \<open>The events a step added to the trace.\<close>

definition events_since :: "world \<Rightarrow> world \<Rightarrow> event list" where
  "events_since w w' = drop (length (trace w)) (trace w')"

definition is_PushBuffer :: "event \<Rightarrow> bool" where
  "is_PushBuffer e = (case e of PushBuffer b \<Rightarrow> True | _ \<Rightarrow> False)"

definition is_ResponseWrite :: "event \<Rightarrow> bool" where
  "is_ResponseWrite e = (case e of ResponseWrite bs \<Rightarrow> True | _ \<Rightarrow> False)"

definition is_SetGain :: "event \<Rightarrow> bool" where
  "is_SetGain e = (case e of SetGain g \<Rightarrow> True | _ \<Rightarrow> False)"

definition is_SetExposureTime :: "event \<Rightarrow> bool" where
  "is_SetExposureTime e = (case e of SetExposureTime x \<Rightarrow> True | _ \<Rightarrow> False)"

text \<open>The events of the three blocks of the handler over the image source, as lists.\<close>

definition gain_events :: "(string \<Rightarrow> float64 \<times> err) \<Rightarrow> request \<Rightarrow> world \<Rightarrow> event list" where
  "gain_events pf r w =
     (if FormValue r ''gain'' \<noteq> [] \<and> float_ne (fst (pf (FormValue r ''gain''))) (gain (isrc w))
      then [Lock Is_mu, SetGain (fst (pf (FormValue r ''gain''))),
            Log ''Gain: %f'' [Float (fst (pf (FormValue r ''gain'')))], Unlock Is_mu]
      else [])"

definition exposure_events ::
  "(string \<Rightarrow> float64 \<times> err) \<Rightarrow> request \<Rightarrow> world \<Rightarrow> event list" where
  "exposure_events pf r w =
     (if FormValue r ''exposure'' \<noteq> [] \<and>
         float_ne (fst (pf (FormValue r ''exposure''))) (exposure (isrc w))
      then [Lock Is_mu, SetExposureTime (fst (pf (FormValue r ''exposure''))),
            Log ''Exposure: %f'' [Float (fst (pf (FormValue r ''exposure'')))], Unlock Is_mu]
      else [])"

definition write_log :: "request \<Rightarrow> event list" where
  "write_log r = (case Write_err r of Some e \<Rightarrow> [Log e []] | None \<Rightarrow> [])"

text \<open>
  Whether a thread holds mutex \<open>m\<close> after the events \<open>es\<close>, when \<open>h\<close> says whether it
  held it before; and whether some response write among the events happens with \<open>m\<close>
  held. A thread whose next step locks a mutex is blocked as long as another thread
  holds it.
\<close>

fun holds :: "bool \<Rightarrow> mutex \<Rightarrow> event list \<Rightarrow> bool" where
  "holds h m [] = h"
| "holds h m (e # es) =
     (case e of
        Lock m' \<Rightarrow> holds (if m' = m then True else h) m es
      | Unlock m' \<Rightarrow> holds (if m' = m then False else h) m es
      | _ \<Rightarrow> holds h m es)"

fun write_while_held :: "bool \<Rightarrow> mutex \<Rightarrow> event list \<Rightarrow> bool" where
  "write_while_held h m [] = False"
| "write_while_held h m (e # es) =
     (case e of
        Lock m' \<Rightarrow> write_while_held (if m' = m then True else h) m es
      | Unlock m' \<Rightarrow> write_while_held (if m' = m then False else h) m es
      | ResponseWrite bs \<Rightarrow> (if h then True else write_while_held h m es)
      | _ \<Rightarrow> write_while_held h m es)"

definition blocked :: "event list \<Rightarrow> event \<Rightarrow> bool" where
  "blocked others e = (case e of Lock m \<Rightarrow> holds False m others | _ \<Rightarrow> False)"

text \<open>The events of a request up to the moment it writes the response: it has locked
  \<^verbatim>\<open>mu\<close>, handled the parameters and locked \<^verbatim>\<open>is.out.mu\<close>.\<close>

definition reader_prefix ::
  "(string \<Rightarrow> float64 \<times> err) \<Rightarrow> request \<Rightarrow> world \<Rightarrow> event list" where
  "reader_prefix pf r w =
     [Lock Mu] @ gain_events pf r w @ exposure_events pf r w @ [Lock Out_mu]"

text \<open>What \<^verbatim>\<open>http.Error\<close> with status 500 sends as status and Content-Type.\<close>

definition plain_500 :: "(nat \<times> string option) option" where
  "plain_500 = Some (500, Some ''text/plain; charset=utf-8'')"

text \<open>The payload a reader gets at this moment: the bytes of \<^verbatim>\<open>is.out.front\<close>.\<close>

definition published :: "world \<Rightarrow> byte list" where
  "published w = slice_bytes w (front (out (isrc w)))"

text \<open>A frame is published when its buffer has status Success and the encoder returns
  no error.\<close>

definition commits :: "frame \<Rightarrow> bool" where
  "commits f = (status f = BUFFER_STATUS_SUCCESS \<and> encode_err f = None)"

text \<open>The published slice, when there is one, is an array that \<^verbatim>\<open>make\<close> has
  allocated.\<close>

definition front_allocated :: "world \<Rightarrow> bool" where
  "front_allocated w = (case front (out (isrc w)) of None \<Rightarrow> True | Some a \<Rightarrow> a < brk w)"

section \<open>Runs of the whole program\<close>

text \<open>
  The handler touches the shared data only with \<^verbatim>\<open>mu\<close> held, and the slot
  \<^verbatim>\<open>is.out.front\<close> only with \<^verbatim>\<open>is.out.mu\<close> held, which the loop holds while it
  publishes; the loop alone touches \<^verbatim>\<open>is.out.back\<close>. On the data, a run of the
  program is therefore a sequence of loop iterations and requests in some order.
\<close>

datatype action = Frame frame | Request request

fun run :: "(string \<Rightarrow> float64 \<times> err) \<Rightarrow> action list \<Rightarrow> world \<Rightarrow> world" where
  "run pf [] w = w"
| "run pf (Frame f # acts) w = run pf acts (iteration f w)"
| "run pf (Request r # acts) w = run pf acts (fst (servePNG pf r w NewResponseWriter))"

section \<open>Sample inputs\<close>

text \<open>
  A source at 640 by 480 with exposure 10000 and gain 16, its stream holding the two
  buffers 1 and 2, nothing published yet; and three kinds of frame: a timeout, a frame
  that is encoded, and a frame on which the encoder returns an error, given with the
  bytes written before the error (none, for the encoder of the program).
\<close>

definition world0 :: world where
  "world0 =
     \<lparr>isrc = \<lparr>exposure = Finite 10000, gain = Finite 16, width = 640, height = 480,
              payloadSize = 307200, compression = BestSpeed,
              out = \<lparr>front = None, back = []\<rparr>\<rparr>,
      heap = (\<lambda>a. []), brk = 0, stream = [1, 2], trace = []\<rparr>"

definition timeout_frame :: "buffer \<Rightarrow> frame" where
  "timeout_frame b =
     \<lparr>ctx_done = False, popped = b, status = BUFFER_STATUS_TIMEOUT, encoded = [],
      encode_err = None\<rparr>"

definition good_frame :: "buffer \<Rightarrow> byte list \<Rightarrow> frame" where
  "good_frame b bs =
     \<lparr>ctx_done = False, popped = b, status = BUFFER_STATUS_SUCCESS, encoded = bs,
      encode_err = None\<rparr>"

definition failed_frame :: "buffer \<Rightarrow> byte list \<Rightarrow> frame" where
  "failed_frame b bs =
     \<lparr>ctx_done = False, popped = b, status = BUFFER_STATUS_SUCCESS, encoded = bs,
      encode_err = Some ''encode failed''\<rparr>"

text \<open>
  Requests are given by their query parameters. The parser below has the results of
  \<^verbatim>\<open>strconv.ParseFloat\<close> on the strings the samples use: the value and no error for
  \<^verbatim>\<open>20\<close>, \<^verbatim>\<open>16\<close> and \<^verbatim>\<open>5000\<close>, and 0 with a syntax error for any other
  string, as for \<^verbatim>\<open>abc\<close>.
\<close>

definition query :: "(string \<times> string) list \<Rightarrow> request" where
  "query kvs =
     \<lparr>Context_Done = False,
      FormValue = (\<lambda>k. case map_of kvs k of None \<Rightarrow> [] | Some v \<Rightarrow> v),
      Write_err = None\<rparr>"

definition ParseFloat_sample :: "string \<Rightarrow> float64 \<times> err" where
  "ParseFloat_sample s =
     (if s = ''20'' then (Finite 20, None)
      else if s = ''16'' then (Finite 16, None)
      else if s = ''5000'' then (Finite 5000, None)
      else (Finite 0, Some ''invalid syntax''))"

definition request20 :: request where
  "request20 = query [(''gain'', ''20''), (''exposure'', ''20'')]"

definition request_abc :: request where
  "request_abc = query [(''gain'', ''abc''), (''exposure'', ''abc'')]"

definition request_plain :: request where
  "request_plain = query []"

text \<open>Two runs of the program: one that publishes a frame, and one that goes on with a
  request, a second frame, a failed encoding and a timeout.\<close>

definition acts_one :: "action list" where
  "acts_one = [Frame (good_frame 2 [0x89, 0x50])]"

definition acts_more :: "action list" where
  "acts_more = [Request request20, Frame (good_frame 2 [0x4E, 0x47]),
                Frame (failed_frame 2 [0xDE, 0xAD]), Frame (timeout_frame 2)]"

text \<open>A startup environment with one device, and one in which \<^verbatim>\<open>CreateStream\<close>
  fails.\<close>

definition thread_env0 :: thread_env where
  "thread_env0 =
     \<lparr>CreateStream_err = None, NewBuffer_result = (\<lambda>i. (Suc i, None)), frames = []\<rparr>"

definition main_env0 :: main_env where
  "main_env0 =
     \<lparr>defaultExposure = Finite 10000, defaultGain = Finite 16,
      GetNumDevices_result = (1, None), GetDeviceId_result = ''cam0'', NewCamera_err = None,
      GetPayloadSize_result = 307200, GetRegion_result = (640, 480), thread = thread_env0\<rparr>"

definition main_env_no_stream :: main_env where
  "main_env_no_stream =
     main_env0\<lparr>thread := thread_env0\<lparr>CreateStream_err := Some ''no stream''\<rparr>\<rparr>"

text \<open>Startup environments in which the camera cannot be opened, in which
  \<^verbatim>\<open>NewBuffer\<close> fails at the first or at the second call, and in which the thread meets
  a timeout and a failed encoding.\<close>

definition main_env_no_camera :: main_env where
  "main_env_no_camera = main_env0\<lparr>NewCamera_err := Some ''no camera''\<rparr>"

definition thread_env_no_buffer :: thread_env where
  "thread_env_no_buffer = thread_env0\<lparr>NewBuffer_result := (\<lambda>i. (Suc i, Some ''no memory''))\<rparr>"

definition thread_env_one_buffer :: thread_env where
  "thread_env_one_buffer =
     thread_env0\<lparr>NewBuffer_result := (\<lambda>i. (Suc i, if i = 0 then None else Some ''no memory''))\<rparr>"

definition main_env_timeouts :: main_env where
  "main_env_timeouts =
     main_env0\<lparr>thread := thread_env0\<lparr>frames := [timeout_frame 1, failed_frame 2 [0xDE]]\<rparr>\<rparr>"

text \<open>A request to the first handler in which every device call succeeds and the
  encoder fails after writing the signature of a PNG file.\<close>

definition cam_encode_fails :: camera_request where
  "cam_encode_fails =
     \<lparr>cam_payloadSize = 307200, cam_CreateStream_err = None, cam_NewBuffer_result = (1, None),
      cam_status = BUFFER_STATUS_SUCCESS,
      cam_encode_writes = [[0x89, 0x50, 0x4E, 0x47]], cam_encode_err = Some ''write failed''\<rparr>"

text \<open>Requests to the first handler in which \<^verbatim>\<open>CreateStream\<close> fails, in which
  \<^verbatim>\<open>NewBuffer\<close> fails, and in which the buffer times out.\<close>

definition cam_no_stream :: camera_request where
  "cam_no_stream = cam_encode_fails\<lparr>cam_CreateStream_err := Some ''no stream''\<rparr>"

definition cam_no_buffer :: camera_request where
  "cam_no_buffer = cam_encode_fails\<lparr>cam_NewBuffer_result := (0, Some ''no memory'')\<rparr>"

definition cam_timeout :: camera_request where
  "cam_timeout = cam_encode_fails\<lparr>cam_status := BUFFER_STATUS_TIMEOUT\<rparr>"

section \<open>One iteration of the acquisition loop\<close>

lemmas step_defs =
  iteration_def Let_def stream_PushBuffer_def stream_TimeoutPopBuffer_def emit_def set_out_def

lemmas sample_defs = world0_def timeout_frame_def good_frame_def failed_frame_def

lemmas request_defs = query_def ParseFloat_sample_def

lemma events_since_append: "trace w' = trace w @ es \<Longrightarrow> events_since w w' = es"
  by (simp add: events_since_def)

lemma iteration_trace_timeout:
  "status f \<noteq> BUFFER_STATUS_SUCCESS \<Longrightarrow>
   trace (iteration f w) = trace w @ [TimeoutPopBuffer, PushBuffer (popped f)]"
  by (simp add: step_defs)

lemma iteration_trace_encode_err:
  "status f = BUFFER_STATUS_SUCCESS \<Longrightarrow> encode_err f = Some e \<Longrightarrow>
   trace (iteration f w) =
     trace w @ [TimeoutPopBuffer, Log e [], Log ''encode error buffer: %+v'' [Buf (popped f)],
                PushBuffer (popped f)]"
  by (simp add: step_defs)

lemma iteration_trace_publish:
  "status f = BUFFER_STATUS_SUCCESS \<Longrightarrow> encode_err f = None \<Longrightarrow>
   trace (iteration f w) =
     trace w @ [TimeoutPopBuffer, PushBuffer (popped f), Lock Out_mu, Unlock Out_mu]"
  by (simp add: step_defs)

lemma iteration_trace_ex: "\<exists>es. trace (iteration f w) = trace w @ es"
proof (cases "status f = BUFFER_STATUS_SUCCESS")
  case False
  then show ?thesis by (simp add: iteration_trace_timeout)
next
  case True
  then show ?thesis
    by (cases "encode_err f") (simp_all add: iteration_trace_publish iteration_trace_encode_err)
qed

lemma iteration_pushes:
  "filter is_PushBuffer (trace (iteration f w)) =
   filter is_PushBuffer (trace w) @ [PushBuffer (popped f)]"
proof (cases "status f = BUFFER_STATUS_SUCCESS")
  case False
  then show ?thesis by (simp add: iteration_trace_timeout is_PushBuffer_def)
next
  case True
  then show ?thesis
    by (cases "encode_err f")
       (simp_all add: iteration_trace_publish iteration_trace_encode_err is_PushBuffer_def)
qed

lemma iteration_stream:
  "stream (iteration f w) = remove1 (popped f) (stream w) @ [popped f]"
  by (simp add: step_defs split: option.splits)

lemma iteration_stream_mset:
  "popped f \<in> set (stream w) \<Longrightarrow> mset (stream (iteration f w)) = mset (stream w)"
  by (simp add: iteration_stream)

section \<open>Runs of the acquisition loop\<close>

lemma loop_trace_ex: "\<exists>es. trace (snd (acquisition_loop fs w)) = trace w @ es"
proof (induction fs arbitrary: w)
  case Nil
  then show ?case by simp
next
  case (Cons f fs)
  show ?case
  proof (cases "ctx_done f")
    case True
    then show ?thesis by simp
  next
    case False
    obtain es1 where e1: "trace (iteration f w) = trace w @ es1"
      using iteration_trace_ex by blast
    obtain es2 where
      e2: "trace (snd (acquisition_loop fs (iteration f w))) = trace (iteration f w) @ es2"
      using Cons.IH by blast
    from False e1 e2 show ?thesis by simp
  qed
qed

lemma loop_stream_mset:
  "\<forall>f \<in> set fs. popped f \<in> set (stream w) \<Longrightarrow>
   mset (stream (snd (acquisition_loop fs w))) = mset (stream w)"
proof (induction fs arbitrary: w)
  case Nil
  then show ?case by simp
next
  case (Cons f fs)
  show ?case
  proof (cases "ctx_done f")
    case True
    then show ?thesis by simp
  next
    case False
    have m: "mset (stream (iteration f w)) = mset (stream w)"
      using Cons.prems by (simp add: iteration_stream_mset)
    then have "set (stream (iteration f w)) = set (stream w)"
      by (rule mset_eq_setD)
    with Cons.prems have "\<forall>g \<in> set fs. popped g \<in> set (stream (iteration f w))"
      by simp
    then have "mset (stream (snd (acquisition_loop fs (iteration f w)))) =
        mset (stream (iteration f w))"
      by (rule Cons.IH)
    with m False show ?thesis by simp
  qed
qed

lemma loop_pushes:
  "filter is_PushBuffer (trace (snd (acquisition_loop fs w))) =
   filter is_PushBuffer (trace w) @
     map (\<lambda>f. PushBuffer (popped f)) (takeWhile (\<lambda>f. \<not> ctx_done f) fs)"
  by (induction fs arbitrary: w) (simp_all add: iteration_pushes)

lemma loop_pushes_since:
  "filter is_PushBuffer (events_since w (snd (acquisition_loop fs w))) =
   map (\<lambda>f. PushBuffer (popped f)) (takeWhile (\<lambda>f. \<not> ctx_done f) fs)"
proof -
  obtain el where el: "trace (snd (acquisition_loop fs w)) = trace w @ el"
    using loop_trace_ex by blast
  then have "events_since w (snd (acquisition_loop fs w)) = el"
    by (rule events_since_append)
  moreover from el have "filter is_PushBuffer el =
      map (\<lambda>f. PushBuffer (popped f)) (takeWhile (\<lambda>f. \<not> ctx_done f) fs)"
    using loop_pushes [of fs w] by simp
  ultimately show ?thesis by simp
qed

lemma go_copy_make: "go_copy (go_make (length bs)) bs = bs"
  by (simp add: go_copy_def go_make_def)

lemma iteration_bad_status:
  "status f \<noteq> BUFFER_STATUS_SUCCESS \<Longrightarrow>
   isrc (iteration f w) = isrc w \<and> heap (iteration f w) = heap w \<and> brk (iteration f w) = brk w"
  by (simp add: step_defs)

lemma iteration_encode_err:
  "status f = BUFFER_STATUS_SUCCESS \<Longrightarrow> encode_err f = Some e \<Longrightarrow>
   isrc (iteration f w) = (isrc w)\<lparr>out := (out (isrc w))\<lparr>back := back (out (isrc w)) @ encoded f\<rparr>\<rparr> \<and>
   heap (iteration f w) = heap w \<and> brk (iteration f w) = brk w"
  by (simp add: step_defs)

lemma iteration_publish:
  "status f = BUFFER_STATUS_SUCCESS \<Longrightarrow> encode_err f = None \<Longrightarrow>
   isrc (iteration f w) = (isrc w)\<lparr>out := \<lparr>front = Some (brk w), back = []\<rparr>\<rparr> \<and>
   heap (iteration f w) = (heap w)(brk w := back (out (isrc w)) @ encoded f) \<and>
   brk (iteration f w) = Suc (brk w)"
  by (simp add: step_defs go_copy_make)

lemma iteration_params:
  "gain (isrc (iteration f w)) = gain (isrc w) \<and> exposure (isrc (iteration f w)) = exposure (isrc w)"
  by (simp add: step_defs split: option.splits)

lemma loop_bad_status:
  "\<forall>f \<in> set fs. status f \<noteq> BUFFER_STATUS_SUCCESS \<Longrightarrow>
   isrc (snd (acquisition_loop fs w)) = isrc w \<and> heap (snd (acquisition_loop fs w)) = heap w
   \<and> brk (snd (acquisition_loop fs w)) = brk w"
  by (induction fs arbitrary: w) (simp_all add: iteration_bad_status)

lemma published_cong:
  "out (isrc w') = out (isrc w) \<Longrightarrow> heap w' = heap w \<Longrightarrow> published w' = published w"
  by (simp add: published_def slice_bytes_def split: option.splits)

section \<open>The blocks of the request handler\<close>

lemma servePNG_canceled:
  "Context_Done r \<Longrightarrow>
   servePNG pf r w rw = (w\<lparr>trace := trace w @ [Lock Mu, Log ''request canceled'' [], Unlock Mu]\<rparr>, rw)"
  by (simp add: servePNG_def emit_def)

lemma servePNG_live:
  "\<not> Context_Done r \<Longrightarrow>
   servePNG pf r w rw =
     (emit (Unlock Mu)
        (fst (write_front r (apply_exposure pf r (apply_gain pf r (emit (Lock Mu) w))) rw)),
      snd (write_front r (apply_exposure pf r (apply_gain pf r (emit (Lock Mu) w))) rw))"
  by (simp add: servePNG_def Let_def split: prod.splits)

lemma apply_gain_absent: "FormValue r ''gain'' = [] \<Longrightarrow> apply_gain pf r w = w"
  by (simp add: apply_gain_def)

lemma apply_gain_same:
  "\<not> float_ne (fst (pf (FormValue r ''gain''))) (gain (isrc w)) \<Longrightarrow> apply_gain pf r w = w"
  by (simp add: apply_gain_def Let_def)

lemma apply_gain_changed:
  "FormValue r ''gain'' \<noteq> [] \<Longrightarrow> float_ne (fst (pf (FormValue r ''gain''))) (gain (isrc w)) \<Longrightarrow>
   apply_gain pf r w =
     w\<lparr>isrc := (isrc w)\<lparr>gain := fst (pf (FormValue r ''gain''))\<rparr>,
       trace := trace w @ [Lock Is_mu, SetGain (fst (pf (FormValue r ''gain''))),
                           Log ''Gain: %f'' [Float (fst (pf (FormValue r ''gain'')))], Unlock Is_mu]\<rparr>"
  by (simp add: apply_gain_def Let_def emit_def)

lemma apply_exposure_absent: "FormValue r ''exposure'' = [] \<Longrightarrow> apply_exposure pf r w = w"
  by (simp add: apply_exposure_def)

lemma apply_exposure_same:
  "\<not> float_ne (fst (pf (FormValue r ''exposure''))) (exposure (isrc w)) \<Longrightarrow>
   apply_exposure pf r w = w"
  by (simp add: apply_exposure_def Let_def)

lemma apply_exposure_changed:
  "FormValue r ''exposure'' \<noteq> [] \<Longrightarrow>
   float_ne (fst (pf (FormValue r ''exposure''))) (exposure (isrc w)) \<Longrightarrow>
   apply_exposure pf r w =
     w\<lparr>isrc := (isrc w)\<lparr>exposure := fst (pf (FormValue r ''exposure''))\<rparr>,
       trace := trace w @ [Lock Is_mu, SetExposureTime (fst (pf (FormValue r ''exposure''))),
                           Log ''Exposure: %f'' [Float (fst (pf (FormValue r ''exposure'')))],
                           Unlock Is_mu]\<rparr>"
  by (simp add: apply_exposure_def Let_def emit_def)

text \<open>What the blocks leave alone.\<close>

lemma apply_gain_frame:
  "heap (apply_gain pf r w) = heap w \<and> brk (apply_gain pf r w) = brk w \<and>
   stream (apply_gain pf r w) = stream w \<and> out (isrc (apply_gain pf r w)) = out (isrc w) \<and>
   exposure (isrc (apply_gain pf r w)) = exposure (isrc w)"
  by (simp add: apply_gain_def Let_def emit_def)

lemma apply_exposure_frame:
  "heap (apply_exposure pf r w) = heap w \<and> brk (apply_exposure pf r w) = brk w \<and>
   stream (apply_exposure pf r w) = stream w \<and>
   out (isrc (apply_exposure pf r w)) = out (isrc w) \<and>
   gain (isrc (apply_exposure pf r w)) = gain (isrc w)"
  by (simp add: apply_exposure_def Let_def emit_def)

lemma write_front_world:
  "fst (write_front r w rw) =
     w\<lparr>trace := trace w @ [Lock Out_mu, ResponseWrite (published w)] @
                 (case Write_err r of Some e \<Rightarrow> [Log e []] | None \<Rightarrow> []) @ [Unlock Out_mu]\<rparr>"
  by (simp add: write_front_def Let_def emit_def published_def slice_bytes_def split: option.splits)

lemma write_front_response: "snd (write_front r w rw) = Write (published w) rw"
  by (simp add: write_front_def Let_def emit_def published_def slice_bytes_def split: option.splits)

lemma servePNG_frame:
  "heap (fst (servePNG pf r w rw)) = heap w \<and> brk (fst (servePNG pf r w rw)) = brk w \<and>
   stream (fst (servePNG pf r w rw)) = stream w \<and>
   out (isrc (fst (servePNG pf r w rw))) = out (isrc w)"
proof (cases "Context_Done r")
  case True
  then show ?thesis by (simp add: servePNG_canceled)
next
  case False
  then show ?thesis
    by (simp add: servePNG_live write_front_world emit_def apply_gain_frame apply_exposure_frame)
qed

lemma servePNG_response:
  "\<not> Context_Done r \<Longrightarrow> snd (servePNG pf r w rw) = Write (published w) rw"
proof -
  assume live: "\<not> Context_Done r"
  have "published (apply_exposure pf r (apply_gain pf r (emit (Lock Mu) w))) = published w"
    by (rule published_cong) (simp_all add: apply_gain_frame apply_exposure_frame emit_def)
  with live show ?thesis
    by (simp add: servePNG_live write_front_response)
qed

section \<open>The events of a request\<close>

lemma trace_emit: "trace (emit e w) = trace w @ [e]"
  by (simp add: emit_def)

lemma apply_gain_trace: "trace (apply_gain pf r w) = trace w @ gain_events pf r w"
  by (simp add: apply_gain_def gain_events_def Let_def emit_def)

lemma apply_exposure_trace: "trace (apply_exposure pf r w) = trace w @ exposure_events pf r w"
  by (simp add: apply_exposure_def exposure_events_def Let_def emit_def)

lemma gain_events_emit: "gain_events pf r (emit e w) = gain_events pf r w"
  by (simp add: gain_events_def emit_def)

lemma exposure_events_apply_gain:
  "exposure_events pf r (apply_gain pf r (emit e w)) = exposure_events pf r w"
  by (simp add: exposure_events_def apply_gain_frame emit_def)

lemma servePNG_trace:
  "\<not> Context_Done r \<Longrightarrow>
   trace (fst (servePNG pf r w rw)) =
     trace w @ [Lock Mu] @ gain_events pf r w @ exposure_events pf r w @
       [Lock Out_mu, ResponseWrite (published w)] @ write_log r @ [Unlock Out_mu, Unlock Mu]"
proof -
  assume live: "\<not> Context_Done r"
  have p: "published (apply_exposure pf r (apply_gain pf r (emit (Lock Mu) w))) = published w"
    by (rule published_cong) (simp_all add: apply_gain_frame apply_exposure_frame emit_def)
  have t: "trace (apply_exposure pf r (apply_gain pf r (emit (Lock Mu) w))) =
      trace w @ [Lock Mu] @ gain_events pf r w @ exposure_events pf r w"
    by (simp add: apply_exposure_trace apply_gain_trace gain_events_emit
          exposure_events_apply_gain trace_emit)
  from live show ?thesis
    by (simp add: servePNG_live write_front_world trace_emit p t write_log_def)
qed

lemma servePNG_events:
  "\<not> Context_Done r \<Longrightarrow>
   events_since w (fst (servePNG pf r w rw)) =
     [Lock Mu] @ gain_events pf r w @ exposure_events pf r w @
       [Lock Out_mu, ResponseWrite (published w)] @ write_log r @ [Unlock Out_mu, Unlock Mu]"
  by (rule events_since_append) (simp add: servePNG_trace)

lemma servePNG_gain:
  "\<not> Context_Done r \<Longrightarrow>
   gain (isrc (fst (servePNG pf r w rw))) =
     (if FormValue r ''gain'' \<noteq> [] \<and> float_ne (fst (pf (FormValue r ''gain''))) (gain (isrc w))
      then fst (pf (FormValue r ''gain'')) else gain (isrc w))"
  by (simp add: servePNG_live write_front_world emit_def apply_exposure_frame)
     (simp add: apply_gain_def Let_def emit_def)

lemma servePNG_exposure:
  "\<not> Context_Done r \<Longrightarrow>
   exposure (isrc (fst (servePNG pf r w rw))) =
     (if FormValue r ''exposure'' \<noteq> [] \<and>
         float_ne (fst (pf (FormValue r ''exposure''))) (exposure (isrc w))
      then fst (pf (FormValue r ''exposure'')) else exposure (isrc w))"
  by (simp add: servePNG_live write_front_world emit_def)
     (simp add: apply_exposure_def Let_def emit_def apply_gain_frame)

lemma filter_SetGain_write_log: "filter is_SetGain (write_log r) = []"
  by (simp add: write_log_def is_SetGain_def split: option.splits)

lemma filter_SetExposureTime_write_log: "filter is_SetExposureTime (write_log r) = []"
  by (simp add: write_log_def is_SetExposureTime_def split: option.splits)

lemma filter_SetGain_exposure_events: "filter is_SetGain (exposure_events pf r w) = []"
  by (simp add: exposure_events_def is_SetGain_def)

lemma filter_SetExposureTime_gain_events: "filter is_SetExposureTime (gain_events pf r w) = []"
  by (simp add: gain_events_def is_SetExposureTime_def)

lemma servePNG_SetGain:
  "\<not> Context_Done r \<Longrightarrow>
   filter is_SetGain (events_since w (fst (servePNG pf r w rw))) =
     (if FormValue r ''gain'' \<noteq> [] \<and> float_ne (fst (pf (FormValue r ''gain''))) (gain (isrc w))
      then [SetGain (fst (pf (FormValue r ''gain'')))] else [])"
  by (simp add: servePNG_events filter_SetGain_write_log filter_SetGain_exposure_events)
     (simp add: gain_events_def is_SetGain_def)

lemma servePNG_SetExposureTime:
  "\<not> Context_Done r \<Longrightarrow>
   filter is_SetExposureTime (events_since w (fst (servePNG pf r w rw))) =
     (if FormValue r ''exposure'' \<noteq> [] \<and>
         float_ne (fst (pf (FormValue r ''exposure''))) (exposure (isrc w))
      then [SetExposureTime (fst (pf (FormValue r ''exposure'')))] else [])"
  by (simp add: servePNG_events filter_SetExposureTime_write_log
        filter_SetExposureTime_gain_events)
     (simp add: exposure_events_def is_SetExposureTime_def)

lemma float_ne_same: "v \<noteq> NaN \<Longrightarrow> \<not> float_ne v v"
  by (simp add: float_ne_def)

section \<open>Published slices\<close>

lemma encode_failure_step:
  "status f = BUFFER_STATUS_SUCCESS \<Longrightarrow> encode_err f = Some e \<Longrightarrow>
   front (out (isrc (iteration f w))) = front (out (isrc w)) \<and>
   heap (iteration f w) = heap w \<and>
   published (iteration f w) = published w \<and>
   back (out (isrc (iteration f w))) = back (out (isrc w)) @ encoded f \<and>
   filter is_PushBuffer (events_since w (iteration f w)) = [PushBuffer (popped f)]"
proof -
  assume s: "status f = BUFFER_STATUS_SUCCESS" and e: "encode_err f = Some e"
  have i: "isrc (iteration f w) =
      (isrc w)\<lparr>out := (out (isrc w))\<lparr>back := back (out (isrc w)) @ encoded f\<rparr>\<rparr>"
    and h: "heap (iteration f w) = heap w"
    using iteration_encode_err [OF s e, of w] by simp_all
  have p: "published (iteration f w) = published w"
    by (simp add: published_def slice_bytes_def i h split: option.splits)
  have t: "events_since w (iteration f w) =
      [TimeoutPopBuffer, Log e [], Log ''encode error buffer: %+v'' [Buf (popped f)],
       PushBuffer (popped f)]"
    by (rule events_since_append) (rule iteration_trace_encode_err [OF s e])
  show ?thesis
    by (simp add: i h p t is_PushBuffer_def)
qed

lemma published_publish:
  "status f = BUFFER_STATUS_SUCCESS \<Longrightarrow> encode_err f = None \<Longrightarrow>
   published (iteration f w) = back (out (isrc w)) @ encoded f"
  by (simp add: published_def slice_bytes_def iteration_publish)

lemma iteration_heap_old: "a < brk w \<Longrightarrow> heap (iteration f w) a = heap w a"
  by (simp add: step_defs split: option.splits)

lemma iteration_brk_mono: "brk w \<le> brk (iteration f w)"
  by (simp add: step_defs split: option.splits)

lemma iteration_front_allocated: "front_allocated w \<Longrightarrow> front_allocated (iteration f w)"
  by (simp add: front_allocated_def step_defs split: option.splits)

lemma servePNG_front_allocated:
  "front_allocated w \<Longrightarrow> front_allocated (fst (servePNG pf r w rw))"
  by (simp add: front_allocated_def servePNG_frame split: option.splits)

lemma run_front_allocated: "front_allocated w \<Longrightarrow> front_allocated (run pf acts w)"
  by (induction pf acts w rule: run.induct)
     (simp_all add: iteration_front_allocated servePNG_front_allocated)

lemma run_heap_old: "a < brk w \<Longrightarrow> heap (run pf acts w) a = heap w a"
proof (induction pf acts w rule: run.induct)
  case (1 pf w)
  then show ?case by simp
next
  case (2 pf f acts w)
  have "brk w \<le> brk (iteration f w)" by (rule iteration_brk_mono)
  with "2.prems" have "a < brk (iteration f w)" by simp
  then have "heap (run pf acts (iteration f w)) a = heap (iteration f w) a" by (rule "2.IH")
  with "2.prems" show ?case by (simp add: iteration_heap_old)
next
  case (3 pf r acts w)
  from "3.prems" have "a < brk (fst (servePNG pf r w NewResponseWriter))"
    by (simp add: servePNG_frame)
  then have "heap (run pf acts (fst (servePNG pf r w NewResponseWriter))) a =
      heap (fst (servePNG pf r w NewResponseWriter)) a" by (rule "3.IH")
  then show ?case by (simp add: servePNG_frame)
qed

lemma initial_front_allocated: "front_allocated (initial_world env)"
  by (simp add: front_allocated_def initial_world_def)

section \<open>What later steps depend on\<close>

lemma iteration_data:
  "isrc w' = isrc w \<Longrightarrow> heap w' = heap w \<Longrightarrow> brk w' = brk w \<Longrightarrow>
   isrc (iteration f w') = isrc (iteration f w) \<and>
   heap (iteration f w') = heap (iteration f w) \<and>
   brk (iteration f w') = brk (iteration f w)"
proof (cases "status f = BUFFER_STATUS_SUCCESS")
  case False
  assume "isrc w' = isrc w" "heap w' = heap w" "brk w' = brk w"
  with False show ?thesis by (simp add: iteration_bad_status)
next
  case True
  assume d: "isrc w' = isrc w" "heap w' = heap w" "brk w' = brk w"
  show ?thesis
  proof (cases "encode_err f")
    case None
    with True d show ?thesis by (simp add: iteration_publish)
  next
    case (Some e)
    with True d show ?thesis by (simp add: iteration_encode_err)
  qed
qed

lemma apply_gain_isrc:
  "isrc w' = isrc w \<Longrightarrow> isrc (apply_gain pf r w') = isrc (apply_gain pf r w)"
  by (simp add: apply_gain_def Let_def emit_def)

lemma apply_exposure_isrc:
  "isrc w' = isrc w \<Longrightarrow> isrc (apply_exposure pf r w') = isrc (apply_exposure pf r w)"
  by (simp add: apply_exposure_def Let_def emit_def)

lemma servePNG_data:
  "isrc w' = isrc w \<Longrightarrow> heap w' = heap w \<Longrightarrow> brk w' = brk w \<Longrightarrow>
   isrc (fst (servePNG pf r w' rw)) = isrc (fst (servePNG pf r w rw)) \<and>
   heap (fst (servePNG pf r w' rw)) = heap (fst (servePNG pf r w rw)) \<and>
   brk (fst (servePNG pf r w' rw)) = brk (fst (servePNG pf r w rw))"
proof -
  assume d: "isrc w' = isrc w" "heap w' = heap w" "brk w' = brk w"
  have i: "isrc (fst (servePNG pf r w' rw)) = isrc (fst (servePNG pf r w rw))"
  proof (cases "Context_Done r")
    case True
    with d show ?thesis by (simp add: servePNG_canceled)
  next
    case False
    from d have "isrc (emit (Lock Mu) w') = isrc (emit (Lock Mu) w)"
      by (simp add: emit_def)
    then have "isrc (apply_gain pf r (emit (Lock Mu) w')) = isrc (apply_gain pf r (emit (Lock Mu) w))"
      by (rule apply_gain_isrc)
    then have "isrc (apply_exposure pf r (apply_gain pf r (emit (Lock Mu) w'))) =
        isrc (apply_exposure pf r (apply_gain pf r (emit (Lock Mu) w)))"
      by (rule apply_exposure_isrc)
    with False show ?thesis
      by (simp add: servePNG_live write_front_world emit_def)
  qed
  from d i show ?thesis by (simp add: servePNG_frame)
qed

lemma run_data:
  "isrc w' = isrc w \<Longrightarrow> heap w' = heap w \<Longrightarrow> brk w' = brk w \<Longrightarrow>
   isrc (run pf acts w') = isrc (run pf acts w) \<and>
   heap (run pf acts w') = heap (run pf acts w) \<and>
   brk (run pf acts w') = brk (run pf acts w)"
proof (induction acts arbitrary: w w')
  case Nil
  then show ?case by simp
next
  case (Cons a acts)
  show ?case
  proof (cases a)
    case (Frame f)
    from iteration_data [OF Cons.prems, of f]
    have "isrc (run pf acts (iteration f w')) = isrc (run pf acts (iteration f w)) \<and>
        heap (run pf acts (iteration f w')) = heap (run pf acts (iteration f w)) \<and>
        brk (run pf acts (iteration f w')) = brk (run pf acts (iteration f w))"
      by (intro Cons.IH) simp_all
    with Frame show ?thesis by simp
  next
    case (Request r)
    from servePNG_data [OF Cons.prems, of pf r NewResponseWriter]
    have "isrc (run pf acts (fst (servePNG pf r w' NewResponseWriter))) =
          isrc (run pf acts (fst (servePNG pf r w NewResponseWriter))) \<and>
        heap (run pf acts (fst (servePNG pf r w' NewResponseWriter))) =
          heap (run pf acts (fst (servePNG pf r w NewResponseWriter))) \<and>
        brk (run pf acts (fst (servePNG pf r w' NewResponseWriter))) =
          brk (run pf acts (fst (servePNG pf r w NewResponseWriter)))"
      by (intro Cons.IH) simp_all
    with Request show ?thesis by simp
  qed
qed

lemma loop_data:
  "isrc w' = isrc w \<Longrightarrow> heap w' = heap w \<Longrightarrow> brk w' = brk w \<Longrightarrow>
   fst (acquisition_loop fs w') = fst (acquisition_loop fs w) \<and>
   isrc (snd (acquisition_loop fs w')) = isrc (snd (acquisition_loop fs w)) \<and>
   heap (snd (acquisition_loop fs w')) = heap (snd (acquisition_loop fs w)) \<and>
   brk (snd (acquisition_loop fs w')) = brk (snd (acquisition_loop fs w))"
proof (induction fs arbitrary: w w')
  case Nil
  then show ?case by simp
next
  case (Cons f fs)
  show ?case
  proof (cases "ctx_done f")
    case True
    with Cons.prems show ?thesis by simp
  next
    case False
    from iteration_data [OF Cons.prems, of f]
    have "fst (acquisition_loop fs (iteration f w')) = fst (acquisition_loop fs (iteration f w)) \<and>
        isrc (snd (acquisition_loop fs (iteration f w'))) =
          isrc (snd (acquisition_loop fs (iteration f w))) \<and>
        heap (snd (acquisition_loop fs (iteration f w'))) =
          heap (snd (acquisition_loop fs (iteration f w))) \<and>
        brk (snd (acquisition_loop fs (iteration f w'))) =
          brk (snd (acquisition_loop fs (iteration f w)))"
      by (intro Cons.IH) simp_all
    with False show ?thesis by simp
  qed
qed

lemma failed_before_write:
  "status f = BUFFER_STATUS_SUCCESS \<Longrightarrow> encode_err f = Some e \<Longrightarrow> encoded f = [] \<Longrightarrow>
   isrc (iteration f w) = isrc w \<and> heap (iteration f w) = heap w \<and> brk (iteration f w) = brk w"
  by (simp add: iteration_encode_err)

lemma world0_one_frame:
  "published (run ParseFloat_sample acts_one world0) = [0x89, 0x50] \<and>
   published (snd (acquisition_loop [good_frame 2 [0x89, 0x50]] world0)) = [0x89, 0x50]"
  by (simp add: acts_one_def good_frame_def published_publish world0_def)

section \<open>Before the first frame\<close>

lemma iteration_no_commit:
  "\<not> commits f \<Longrightarrow> front (out (isrc (iteration f w))) = front (out (isrc w)) \<and>
     heap (iteration f w) = heap w"
proof (cases "status f = BUFFER_STATUS_SUCCESS")
  case False
  then show ?thesis by (simp add: iteration_bad_status)
next
  case True
  assume "\<not> commits f"
  with True obtain e where "encode_err f = Some e"
    by (auto simp: commits_def)
  with True show ?thesis by (simp add: iteration_encode_err)
qed

lemma loop_no_commit:
  "\<forall>f \<in> set fs. \<not> commits f \<Longrightarrow>
   front (out (isrc (snd (acquisition_loop fs w)))) = front (out (isrc w)) \<and>
   heap (snd (acquisition_loop fs w)) = heap w"
  by (induction fs arbitrary: w) (simp_all add: iteration_no_commit)

lemma add_buffers_frame:
  "isrc (snd (add_buffers rs sz w)) = isrc w \<and> heap (snd (add_buffers rs sz w)) = heap w"
  by (induction rs sz w rule: add_buffers.induct)
     (simp_all add: emit_def stream_PushBuffer_def split: option.splits)

lemma add_buffers_frameD:
  "add_buffers rs sz w = (x, w2) \<Longrightarrow> isrc w2 = isrc w \<and> heap w2 = heap w"
  using add_buffers_frame [of rs sz w] by simp

lemma loop_no_commitD:
  "\<forall>f \<in> set fs. \<not> commits f \<Longrightarrow> acquisition_loop fs w = (x, w') \<Longrightarrow>
   front (out (isrc w')) = front (out (isrc w)) \<and> heap w' = heap w"
  using loop_no_commit [of fs w] by simp

lemma cameraThread_no_commit:
  "\<forall>f \<in> set (frames env). \<not> commits f \<Longrightarrow>
   front (out (isrc (snd (cameraThread env w)))) = front (out (isrc w)) \<and>
   heap (snd (cameraThread env w)) = heap w"
proof (cases "CreateStream_err env")
  case (Some e)
  then show ?thesis by (simp add: cameraThread_def emit_def)
next
  case None
  assume nc: "\<forall>f \<in> set (frames env). \<not> commits f"
  obtain x w2 where ab: "add_buffers (map (NewBuffer_result env) [0..<2]) (payloadSize (isrc w))
               (emit CreateStream (w\<lparr>stream := []\<rparr>)) = (x, w2)"
    by (meson surj_pair)
  then have f2: "isrc w2 = isrc w \<and> heap w2 = heap w"
    by (auto dest!: add_buffers_frameD simp: emit_def)
  obtain y w4 where lp: "acquisition_loop (frames env) (emit StartAcquisition w2) = (y, w4)"
    by (meson surj_pair)
  from loop_no_commitD [OF nc lp] f2
  have f4: "front (out (isrc w4)) = front (out (isrc w)) \<and> heap w4 = heap w"
    by (simp add: emit_def)
  have "cameraThread env w =
      (case x of Some e \<Rightarrow> (Returned (Some e), emit StreamClose w2)
       | None \<Rightarrow> (case y of Running \<Rightarrow> (Running, w4)
                   | Returned e \<Rightarrow> (Returned e, emit StreamClose (emit StopAcquisition w4))))"
    unfolding cameraThread_def None ab
    by (simp add: lp split: option.splits thread_result.splits)
  with f2 f4 show ?thesis
    by (simp add: emit_def split: option.splits thread_result.splits)
qed

lemma Write_empty:
  "Write [] NewResponseWriter = \<lparr>header_ContentType = None, sent = Some (200, None), body = []\<rparr>"
  by (simp add: Write_def WriteHeader_def NewResponseWriter_def)

section \<open>Startup of the acquisition thread\<close>

lemma cameraThread_no_stream:
  "CreateStream_err env = Some e \<Longrightarrow>
   cameraThread env w = (Returned (Some e), emit CreateStream w)"
  by (simp add: cameraThread_def)

lemma upt_two: "[0..<2] = [0, Suc 0]"
  by (simp add: numeral_2_eq_2)

lemma cameraThread_no_first_buffer:
  "CreateStream_err env = None \<Longrightarrow> snd (NewBuffer_result env 0) = Some e \<Longrightarrow>
   cameraThread env w =
     (Returned (Some e),
      w\<lparr>stream := [], trace := trace w @ [CreateStream, NewBuffer (payloadSize (isrc w)), StreamClose]\<rparr>)"
  by (cases "NewBuffer_result env 0")
     (simp add: cameraThread_def upt_two emit_def)

lemma cameraThread_no_second_buffer:
  "CreateStream_err env = None \<Longrightarrow> NewBuffer_result env 0 = (b, None) \<Longrightarrow>
   snd (NewBuffer_result env 1) = Some e \<Longrightarrow>
   cameraThread env w =
     (Returned (Some e),
      w\<lparr>stream := [b],
        trace := trace w @ [CreateStream, NewBuffer (payloadSize (isrc w)), PushBuffer b,
                            NewBuffer (payloadSize (isrc w)), StreamClose]\<rparr>)"
  by (cases "NewBuffer_result env 1")
     (simp add: cameraThread_def upt_two emit_def stream_PushBuffer_def)

section \<open>Mutexes\<close>

lemma holds_append: "holds h m (xs @ ys) = holds (holds h m xs) m ys"
proof (induction xs arbitrary: h)
  case Nil
  then show ?case by simp
next
  case (Cons a xs)
  show ?case by (cases a) (simp_all only: append_Cons holds.simps event.case Cons.IH)
qed

lemma write_while_held_append:
  "write_while_held h m (xs @ ys) =
     (if write_while_held h m xs then True else write_while_held (holds h m xs) m ys)"
  by (induction xs arbitrary: h) (simp_all split: event.splits)

lemma holds_gain_events: "holds h Out_mu (gain_events pf r w) = h"
  by (simp add: gain_events_def)

lemma holds_exposure_events: "holds h Out_mu (exposure_events pf r w) = h"
  by (simp add: exposure_events_def)

lemma holds_Mu_gain_events: "holds h Mu (gain_events pf r w) = h"
  by (simp add: gain_events_def)

lemma holds_Mu_exposure_events: "holds h Mu (exposure_events pf r w) = h"
  by (simp add: exposure_events_def)

section \<open>Responses\<close>

lemma sent_Write: "sent rw = Some x \<Longrightarrow> sent (Write bs rw) = Some x"
  by (simp add: Write_def WriteHeader_def Let_def)

lemma sent_http_Error_again: "sent rw = Some x \<Longrightarrow> sent (http_Error msg c rw) = Some x"
  by (simp add: http_Error_def Write_def WriteHeader_def Let_def)

lemma sent_foldl_Write:
  "sent rw = Some x \<Longrightarrow> sent (foldl (\<lambda>y bs. Write bs y) rw ws) = Some x"
  by (induction ws arbitrary: rw) (simp_all add: sent_Write)

lemma http_Error_New:
  "http_Error msg c NewResponseWriter =
     \<lparr>header_ContentType = Some ''text/plain; charset=utf-8'',
      sent = Some (c, Some ''text/plain; charset=utf-8''),
      body = bytes_of msg @ [0x0A]\<rparr>"
  by (simp add: http_Error_def Write_def WriteHeader_def Let_def NewResponseWriter_def)

lemma body_Write: "body (Write bs rw) = body rw @ bs"
  by (simp add: Write_def WriteHeader_def Let_def split: option.splits)

lemma body_http_Error: "body (http_Error msg c rw) = body rw @ bytes_of msg @ [0x0A]"
  by (simp add: http_Error_def Write_def WriteHeader_def Let_def split: option.splits)

lemma body_foldl_Write: "body (foldl (\<lambda>y bs. Write bs y) rw ws) = body rw @ concat ws"
  by (induction ws arbitrary: rw) (simp_all add: body_Write)

lemma status_code_foldl_Write_New:
  "status_code (foldl (\<lambda>y bs. Write bs y) NewResponseWriter ws) = 200"
proof (cases ws)
  case Nil
  then show ?thesis by (simp add: status_code_def NewResponseWriter_def)
next
  case (Cons b bs)
  have "sent (Write b NewResponseWriter) = Some (200, None)"
    by (simp add: Write_def WriteHeader_def NewResponseWriter_def)
  then have "sent (foldl (\<lambda>y bs. Write bs y) (Write b NewResponseWriter) bs) = Some (200, None)"
    by (rule sent_foldl_Write)
  with Cons show ?thesis by (simp add: status_code_def)
qed

lemma servePNG_camera_no_stream:
  "cam_CreateStream_err r = Some e \<Longrightarrow>
   sent (fst (servePNG_camera x g r NewResponseWriter)) = plain_500 \<and>
   take (Suc (length e)) (body (fst (servePNG_camera x g r NewResponseWriter))) = bytes_of e @ [0x0A]"
  by (simp add: servePNG_camera_def Let_def http_Error_New plain_500_def sent_http_Error_again
        sent_foldl_Write body_http_Error body_foldl_Write bytes_of_def split: option.splits)

lemma servePNG_camera_no_buffer:
  "cam_CreateStream_err r = None \<Longrightarrow> snd (cam_NewBuffer_result r) = Some e \<Longrightarrow>
   sent (fst (servePNG_camera x g r NewResponseWriter)) = plain_500 \<and>
   take (Suc (length e)) (body (fst (servePNG_camera x g r NewResponseWriter))) = bytes_of e @ [0x0A]"
  by (simp add: servePNG_camera_def Let_def http_Error_New plain_500_def sent_http_Error_again
        sent_foldl_Write body_http_Error body_foldl_Write bytes_of_def split: option.splits)

lemma servePNG_camera_bad_status:
  "cam_CreateStream_err r = None \<Longrightarrow> snd (cam_NewBuffer_result r) = None \<Longrightarrow>
   cam_status r \<noteq> BUFFER_STATUS_SUCCESS \<Longrightarrow>
   fst (servePNG_camera x g r NewResponseWriter) =
     \<lparr>header_ContentType = Some ''text/plain; charset=utf-8'',
      sent = plain_500, body = bytes_of ''buffer error'' @ [0x0A]\<rparr>"
  by (simp add: servePNG_camera_def Let_def http_Error_New plain_500_def)

lemma servePNG_camera_encode:
  "cam_CreateStream_err r = None \<Longrightarrow> snd (cam_NewBuffer_result r) = None \<Longrightarrow>
   cam_status r = BUFFER_STATUS_SUCCESS \<Longrightarrow>
   status_code (fst (servePNG_camera x g r NewResponseWriter)) = 200 \<and>
   body (fst (servePNG_camera x g r NewResponseWriter)) = concat (cam_encode_writes r)"
  by (simp add: servePNG_camera_def Let_def status_code_foldl_Write_New body_foldl_Write)
     (simp add: NewResponseWriter_def)

lemma servePNG_status: "status_code (snd (servePNG pf rq w NewResponseWriter)) = 200"
proof (cases "Context_Done rq")
  case True
  then show ?thesis by (simp add: servePNG_canceled status_code_def NewResponseWriter_def)
next
  case False
  then show ?thesis
    by (simp add: servePNG_response status_code_def Write_def WriteHeader_def NewResponseWriter_def)
qed

lemma run_acts_one:
  "front (out (isrc (run ParseFloat_sample acts_one (initial_world main_env0)))) = Some 0 \<and>
   heap (run ParseFloat_sample acts_one (initial_world main_env0)) 0 = [0x89, 0x50]"
  by (simp add: acts_one_def good_frame_def iteration_publish initial_world_def)

section \<open>Recycling\<close>

text \<open>
  Claim C1. Every iteration of the acquisition loop makes exactly one \<^verbatim>\<open>PushBuffer\<close>
  call, and makes it for the buffer it popped, whatever the status of the buffer and
  whatever the outcome of the encoder; so a run of the loop pushes back, in order, the
  buffers it popped. When the popped buffers are buffers of the stream, the stream holds
  the same buffers, and as many, after an iteration and after a run as before.
\<close>

theorem C1_one_PushBuffer_per_iteration:
  "filter is_PushBuffer (events_since w (iteration f w)) = [PushBuffer (popped f)] \<and>
   filter is_PushBuffer (events_since w (snd (acquisition_loop fs w))) =
     map (\<lambda>g. PushBuffer (popped g)) (takeWhile (\<lambda>g. \<not> ctx_done g) fs) \<and>
   (popped f \<in> set (stream w) \<longrightarrow>
      mset (stream (iteration f w)) = mset (stream w) \<and>
      length (stream (iteration f w)) = length (stream w)) \<and>
   ((\<forall>g \<in> set fs. popped g \<in> set (stream w)) \<longrightarrow>
      mset (stream (snd (acquisition_loop fs w))) = mset (stream w) \<and>
      length (stream (snd (acquisition_loop fs w))) = length (stream w))"
proof -
  obtain es where es: "trace (iteration f w) = trace w @ es"
    using iteration_trace_ex by blast
  then have "events_since w (iteration f w) = es"
    by (rule events_since_append)
  moreover from es have "filter is_PushBuffer es = [PushBuffer (popped f)]"
    using iteration_pushes [of f w] by simp
  ultimately have one:
    "filter is_PushBuffer (events_since w (iteration f w)) = [PushBuffer (popped f)]"
    by simp
  have size1: "popped f \<in> set (stream w) \<Longrightarrow>
      length (stream (iteration f w)) = length (stream w)"
    using iteration_stream_mset [of f w] by (metis size_mset)
  have size2: "\<forall>g \<in> set fs. popped g \<in> set (stream w) \<Longrightarrow>
      length (stream (snd (acquisition_loop fs w))) = length (stream w)"
    using loop_stream_mset [of fs w] by (metis size_mset)
  from one size1 size2 show ?thesis
    by (simp add: iteration_stream_mset loop_stream_mset loop_pushes_since)
qed

theorem C1_witness:
  "popped (failed_frame 2 [0x89, 0x50]) \<in> set (stream world0) \<and>
   filter is_PushBuffer
     (events_since world0 (iteration (failed_frame 2 [0x89, 0x50]) world0)) = [PushBuffer 2] \<and>
   length (stream (iteration (failed_frame 2 [0x89, 0x50]) world0)) = 2 \<and>
   popped (timeout_frame 1) \<in> set (stream world0) \<and>
   popped (good_frame 2 [0x89]) \<in> set (stream world0) \<and>
   filter is_PushBuffer
     (events_since world0
        (snd (acquisition_loop [timeout_frame 1, good_frame 2 [0x89]] world0))) =
     [PushBuffer 1, PushBuffer 2] \<and>
   length (stream (snd (acquisition_loop [timeout_frame 1, good_frame 2 [0x89]] world0))) = 2"
  using C1_one_PushBuffer_per_iteration
    [where f = "failed_frame 2 [0x89, 0x50]" and w = world0
       and fs = "[timeout_frame 1, good_frame 2 [0x89]]"]
  by (simp add: sample_defs)

section \<open>Runs without a frame\<close>

text \<open>
  Claim C6. Over any run of consecutive iterations in which the popped buffer has a status
  other than Success (three timeouts in a row, say), the published slot and its bytes are
  the same after the run as before, every popped buffer is pushed back, and, the popped
  buffers being buffers of the stream, the stream holds the same buffers, and as many,
  as before.
\<close>

theorem C6_bad_status_run_keeps_payload:
  "\<forall>f \<in> set fs. status f \<noteq> BUFFER_STATUS_SUCCESS \<Longrightarrow>
   front (out (isrc (snd (acquisition_loop fs w)))) = front (out (isrc w)) \<and>
   heap (snd (acquisition_loop fs w)) = heap w \<and>
   published (snd (acquisition_loop fs w)) = published w \<and>
   filter is_PushBuffer (events_since w (snd (acquisition_loop fs w))) =
     map (\<lambda>f. PushBuffer (popped f)) (takeWhile (\<lambda>f. \<not> ctx_done f) fs) \<and>
   ((\<forall>f \<in> set fs. popped f \<in> set (stream w)) \<longrightarrow>
      mset (stream (snd (acquisition_loop fs w))) = mset (stream w) \<and>
      length (stream (snd (acquisition_loop fs w))) = length (stream w))"
proof -
  assume a: "\<forall>f \<in> set fs. status f \<noteq> BUFFER_STATUS_SUCCESS"
  then have same: "isrc (snd (acquisition_loop fs w)) = isrc w \<and>
      heap (snd (acquisition_loop fs w)) = heap w"
    using loop_bad_status [of fs w] by simp
  then have c1: "front (out (isrc (snd (acquisition_loop fs w)))) = front (out (isrc w))"
    by simp
  from same have c2: "heap (snd (acquisition_loop fs w)) = heap w"
    by simp
  from same have c3: "published (snd (acquisition_loop fs w)) = published w"
    by (intro published_cong) simp_all
  have c4: "filter is_PushBuffer (events_since w (snd (acquisition_loop fs w))) =
     map (\<lambda>f. PushBuffer (popped f)) (takeWhile (\<lambda>f. \<not> ctx_done f) fs)"
    by (rule loop_pushes_since)
  have c5: "(\<forall>f \<in> set fs. popped f \<in> set (stream w)) \<longrightarrow>
      mset (stream (snd (acquisition_loop fs w))) = mset (stream w) \<and>
      length (stream (snd (acquisition_loop fs w))) = length (stream w)"
  proof
    assume "\<forall>f \<in> set fs. popped f \<in> set (stream w)"
    then have m: "mset (stream (snd (acquisition_loop fs w))) = mset (stream w)"
      by (rule loop_stream_mset)
    then have "length (stream (snd (acquisition_loop fs w))) = length (stream w)"
      by (rule mset_eq_length)
    with m show "mset (stream (snd (acquisition_loop fs w))) = mset (stream w) \<and>
      length (stream (snd (acquisition_loop fs w))) = length (stream w)"
      by simp
  qed
  show ?thesis
    by (intro conjI) (rule c1, rule c2, rule c3, rule c4, rule c5)
qed

theorem C6_witness:
  "status (timeout_frame 1) \<noteq> BUFFER_STATUS_SUCCESS \<and>
   popped (timeout_frame 1) \<in> set (stream world0) \<and>
   status (timeout_frame 2) \<noteq> BUFFER_STATUS_SUCCESS \<and>
   popped (timeout_frame 2) \<in> set (stream world0) \<and>
   published (snd (acquisition_loop [timeout_frame 1, timeout_frame 2, timeout_frame 1] world0)) =
     published world0 \<and>
   filter is_PushBuffer
     (events_since world0
        (snd (acquisition_loop [timeout_frame 1, timeout_frame 2, timeout_frame 1] world0))) =
     [PushBuffer 1, PushBuffer 2, PushBuffer 1] \<and>
   length (stream (snd (acquisition_loop [timeout_frame 1, timeout_frame 2, timeout_frame 1] world0))) = 2"
  using C6_bad_status_run_keeps_payload
    [of "[timeout_frame 1, timeout_frame 2, timeout_frame 1]" world0]
  by (simp add: sample_defs)

section \<open>A failed encoding\<close>

text \<open>
  Claim C2. The encoder of the program is a \<^verbatim>\<open>png.Encoder\<close> writing to the
  \<^verbatim>\<open>bytes.Buffer\<close> \<^verbatim>\<open>is.out.back\<close>, so a failed encoding has written nothing (see
  the frames above). When the encoder fails in an iteration, the loop goes on with the
  next iteration, the popped buffer is pushed back, and the published slot, its bytes and
  the write buffer are as before. Nothing of the failed frame is kept: whatever iterations
  and requests follow, the payload published after them is the one that would be
  published had the failed frame never been acquired.
\<close>

theorem C2_failed_encoding_drops_frame:
  "\<not> ctx_done f \<Longrightarrow> status f = BUFFER_STATUS_SUCCESS \<Longrightarrow> encode_err f = Some e \<Longrightarrow>
   encoded f = [] \<Longrightarrow>
   acquisition_loop (f # fs) w = acquisition_loop fs (iteration f w) \<and>
   filter is_PushBuffer (events_since w (iteration f w)) = [PushBuffer (popped f)] \<and>
   front (out (isrc (iteration f w))) = front (out (isrc w)) \<and>
   published (iteration f w) = published w \<and>
   back (out (isrc (iteration f w))) = back (out (isrc w)) \<and>
   heap (iteration f w) = heap w \<and>
   published (snd (acquisition_loop fs (iteration f w))) =
     published (snd (acquisition_loop fs w)) \<and>
   published (run pf acts (iteration f w)) = published (run pf acts w)"
proof -
  assume live: "\<not> ctx_done f" and s: "status f = BUFFER_STATUS_SUCCESS"
    and e: "encode_err f = Some e" and unwritten: "encoded f = []"
  have step: "front (out (isrc (iteration f w))) = front (out (isrc w)) \<and>
      heap (iteration f w) = heap w \<and> published (iteration f w) = published w \<and>
      back (out (isrc (iteration f w))) = back (out (isrc w)) @ encoded f \<and>
      filter is_PushBuffer (events_since w (iteration f w)) = [PushBuffer (popped f)]"
    using s e by (rule encode_failure_step)
  have same: "isrc (iteration f w) = isrc w" "heap (iteration f w) = heap w"
      "brk (iteration f w) = brk w"
    using failed_before_write [OF s e unwritten, of w] by simp_all
  have later: "published (snd (acquisition_loop fs (iteration f w))) =
      published (snd (acquisition_loop fs w))"
    using loop_data [OF same, of fs] by (intro published_cong) simp_all
  have later_run: "published (run pf acts (iteration f w)) = published (run pf acts w)"
    using run_data [OF same, of pf acts] by (intro published_cong) simp_all
  from live step unwritten later later_run show ?thesis
    by simp
qed

theorem C2_witness:
  "\<not> ctx_done (failed_frame 2 []) \<and> status (failed_frame 2 []) = BUFFER_STATUS_SUCCESS \<and>
   encode_err (failed_frame 2 []) = Some ''encode failed'' \<and> encoded (failed_frame 2 []) = [] \<and>
   acquisition_loop [failed_frame 2 [], good_frame 2 [0x89, 0x50]] world0 =
     acquisition_loop [good_frame 2 [0x89, 0x50]] (iteration (failed_frame 2 []) world0) \<and>
   filter is_PushBuffer (events_since world0 (iteration (failed_frame 2 []) world0)) =
     [PushBuffer (popped (failed_frame 2 []))] \<and>
   published (iteration (failed_frame 2 []) world0) = published world0 \<and>
   published (snd (acquisition_loop [good_frame 2 [0x89, 0x50]]
                     (iteration (failed_frame 2 []) world0))) = [0x89, 0x50] \<and>
   published (run ParseFloat_sample acts_one (iteration (failed_frame 2 []) world0)) =
     [0x89, 0x50]"
proof -
  have h: "\<not> ctx_done (failed_frame 2 [])" "status (failed_frame 2 []) = BUFFER_STATUS_SUCCESS"
    "encode_err (failed_frame 2 []) = Some ''encode failed''" "encoded (failed_frame 2 []) = []"
    by (simp_all add: failed_frame_def)
  from C2_failed_encoding_drops_frame [OF h, where fs = "[good_frame 2 [0x89, 0x50]]"
      and w = world0 and pf = ParseFloat_sample and acts = acts_one]
  show ?thesis
    using h world0_one_frame by simp
qed

section \<open>Parameters\<close>

text \<open>
  Claim C7. A request that is not cancelled and carries a gain that parses to a number
  \<open>v\<close> other than the recorded gain makes exactly one \<^verbatim>\<open>SetGain\<close> call, with
  \<open>v\<close>, and records \<open>v\<close>; a request carrying the same gain while \<open>v\<close> is the recorded
  gain makes no \<^verbatim>\<open>SetGain\<close> call and leaves the record alone. With gain 20 against a
  recorded 16 this is the scenario of the spec. The same holds for the exposure and
  \<^verbatim>\<open>SetExposureTime\<close>. Requests are serialised by the mutex \<^verbatim>\<open>mu\<close>, which the
  handler holds from its first to its last step.
\<close>

theorem C7_parameter_applied_once:
  "\<not> Context_Done ra \<Longrightarrow> \<not> Context_Done rb \<Longrightarrow> s \<noteq> [] \<Longrightarrow> fst (pf s) = v \<Longrightarrow> v \<noteq> NaN \<Longrightarrow>
   (FormValue ra ''gain'' = s \<and> float_ne v (gain (isrc w)) \<longrightarrow>
      filter is_SetGain (events_since w (fst (servePNG pf ra w rw))) = [SetGain v] \<and>
      gain (isrc (fst (servePNG pf ra w rw))) = v) \<and>
   (FormValue rb ''gain'' = s \<and> gain (isrc w') = v \<longrightarrow>
      filter is_SetGain (events_since w' (fst (servePNG pf rb w' rw'))) = [] \<and>
      gain (isrc (fst (servePNG pf rb w' rw'))) = v) \<and>
   (FormValue ra ''exposure'' = s \<and> float_ne v (exposure (isrc w)) \<longrightarrow>
      filter is_SetExposureTime (events_since w (fst (servePNG pf ra w rw))) =
        [SetExposureTime v] \<and>
      exposure (isrc (fst (servePNG pf ra w rw))) = v) \<and>
   (FormValue rb ''exposure'' = s \<and> exposure (isrc w') = v \<longrightarrow>
      filter is_SetExposureTime (events_since w' (fst (servePNG pf rb w' rw'))) = [] \<and>
      exposure (isrc (fst (servePNG pf rb w' rw'))) = v)"
  by (simp add: servePNG_SetGain servePNG_SetExposureTime servePNG_gain servePNG_exposure
        float_ne_same)

theorem C7_witness:
  "\<not> Context_Done request20 \<and> ''20'' \<noteq> [] \<and> fst (ParseFloat_sample ''20'') = Finite 20 \<and>
   Finite 20 \<noteq> NaN \<and>
   FormValue request20 ''gain'' = ''20'' \<and> float_ne (Finite 20) (gain (isrc world0)) \<and>
   filter is_SetGain
     (events_since world0 (fst (servePNG ParseFloat_sample request20 world0 NewResponseWriter))) =
     [SetGain (Finite 20)] \<and>
   gain (isrc (fst (servePNG ParseFloat_sample request20 world0 NewResponseWriter))) = Finite 20 \<and>
   filter is_SetGain
     (events_since (fst (servePNG ParseFloat_sample request20 world0 NewResponseWriter))
        (fst (servePNG ParseFloat_sample request20
               (fst (servePNG ParseFloat_sample request20 world0 NewResponseWriter))
               NewResponseWriter))) = [] \<and>
   FormValue request20 ''exposure'' = ''20'' \<and> float_ne (Finite 20) (exposure (isrc world0)) \<and>
   filter is_SetExposureTime
     (events_since world0 (fst (servePNG ParseFloat_sample request20 world0 NewResponseWriter))) =
     [SetExposureTime (Finite 20)] \<and>
   exposure (isrc (fst (servePNG ParseFloat_sample request20 world0 NewResponseWriter))) =
     Finite 20 \<and>
   filter is_SetExposureTime
     (events_since (fst (servePNG ParseFloat_sample request20 world0 NewResponseWriter))
        (fst (servePNG ParseFloat_sample request20
               (fst (servePNG ParseFloat_sample request20 world0 NewResponseWriter))
               NewResponseWriter))) = []"
proof -
  have h1: "\<not> Context_Done request20" and h2: "''20'' \<noteq> []"
    and h3: "fst (ParseFloat_sample ''20'') = Finite 20" and h4: "Finite 20 \<noteq> NaN"
    and g1: "FormValue request20 ''gain'' = ''20''"
    and g2: "float_ne (Finite 20) (gain (isrc world0))"
    and x1: "FormValue request20 ''exposure'' = ''20''"
    and x2: "float_ne (Finite 20) (exposure (isrc world0))"
    by (simp_all add: request20_def request_defs world0_def float_ne_def)
  from C7_parameter_applied_once [where ra = request20 and rb = request20 and s = "''20''"
      and pf = ParseFloat_sample and v = "Finite 20" and w = world0 and rw = NewResponseWriter
      and w' = "fst (servePNG ParseFloat_sample request20 world0 NewResponseWriter)"
      and rw' = NewResponseWriter, OF h1 h1 h2 h3 h4]
  show ?thesis
    using h1 h2 h3 h4 g1 g2 x1 x2 by simp
qed

text \<open>
  Claim C3, as amended. The handler drops the error of \<^verbatim>\<open>strconv.ParseFloat\<close> and
  uses the value that comes with it. For a request that is not cancelled and carries a
  non-empty gain, whether or not it parses: if the value returned differs from the
  recorded gain there is exactly one \<^verbatim>\<open>SetGain\<close> call with that value and the value is
  recorded, and otherwise there is no call and no change. The same holds for the exposure.
  So a gain such as \<^verbatim>\<open>abc\<close>, for which the parser returns 0 and an error, sets the gain
  to 0 unless it is 0 already.
\<close>

theorem C3_unparsed_value_is_applied:
  "\<not> Context_Done r \<Longrightarrow>
   (FormValue r ''gain'' \<noteq> [] \<and> pf (FormValue r ''gain'') = (v, e) \<longrightarrow>
      (if float_ne v (gain (isrc w))
       then filter is_SetGain (events_since w (fst (servePNG pf r w rw))) = [SetGain v] \<and>
            gain (isrc (fst (servePNG pf r w rw))) = v
       else filter is_SetGain (events_since w (fst (servePNG pf r w rw))) = [] \<and>
            gain (isrc (fst (servePNG pf r w rw))) = gain (isrc w))) \<and>
   (FormValue r ''exposure'' \<noteq> [] \<and> pf (FormValue r ''exposure'') = (v, e) \<longrightarrow>
      (if float_ne v (exposure (isrc w))
       then filter is_SetExposureTime (events_since w (fst (servePNG pf r w rw))) =
              [SetExposureTime v] \<and>
            exposure (isrc (fst (servePNG pf r w rw))) = v
       else filter is_SetExposureTime (events_since w (fst (servePNG pf r w rw))) = [] \<and>
            exposure (isrc (fst (servePNG pf r w rw))) = exposure (isrc w)))"
proof -
  assume live: "\<not> Context_Done r"
  note calls = servePNG_SetGain [OF live] servePNG_SetExposureTime [OF live]
  note recorded = servePNG_gain [OF live] servePNG_exposure [OF live]
  show ?thesis
    by (simp add: calls recorded)
qed

theorem C3_witness:
  "\<not> Context_Done request_abc \<and> FormValue request_abc ''gain'' \<noteq> [] \<and>
   ParseFloat_sample (FormValue request_abc ''gain'') = (Finite 0, Some ''invalid syntax'') \<and>
   float_ne (Finite 0) (gain (isrc world0)) \<and>
   filter is_SetGain
     (events_since world0 (fst (servePNG ParseFloat_sample request_abc world0 NewResponseWriter))) =
     [SetGain (Finite 0)] \<and>
   gain (isrc (fst (servePNG ParseFloat_sample request_abc world0 NewResponseWriter))) = Finite 0 \<and>
   FormValue request_abc ''exposure'' \<noteq> [] \<and>
   ParseFloat_sample (FormValue request_abc ''exposure'') = (Finite 0, Some ''invalid syntax'') \<and>
   float_ne (Finite 0) (exposure (isrc world0)) \<and>
   filter is_SetExposureTime
     (events_since world0 (fst (servePNG ParseFloat_sample request_abc world0 NewResponseWriter))) =
     [SetExposureTime (Finite 0)] \<and>
   exposure (isrc (fst (servePNG ParseFloat_sample request_abc world0 NewResponseWriter))) =
     Finite 0"
proof -
  have h1: "\<not> Context_Done request_abc"
    and g1: "FormValue request_abc ''gain'' \<noteq> []"
    and p1: "ParseFloat_sample (FormValue request_abc ''gain'') = (Finite 0, Some ''invalid syntax'')"
    and ne: "float_ne (Finite 0) (gain (isrc world0))"
    and x1: "FormValue request_abc ''exposure'' \<noteq> []"
    and q1: "ParseFloat_sample (FormValue request_abc ''exposure'') =
        (Finite 0, Some ''invalid syntax'')"
    and nx: "float_ne (Finite 0) (exposure (isrc world0))"
    by (simp_all add: request_abc_def request_defs world0_def float_ne_def)
  from C3_unparsed_value_is_applied [where r = request_abc and pf = ParseFloat_sample
      and v = "Finite 0" and e = "Some ''invalid syntax''" and w = world0
      and rw = NewResponseWriter, OF h1]
  show ?thesis
    using h1 g1 p1 ne x1 q1 nx by simp
qed

text \<open>The claim as stated fails: the gain is 16, the request carries the gain
  \<^verbatim>\<open>abc\<close>, and the handler calls \<^verbatim>\<open>SetGain\<close> with 0 and records 0.\<close>

theorem C3_counterexample:
  "\<not> Context_Done request_abc \<and> FormValue request_abc ''gain'' = ''abc'' \<and>
   snd (ParseFloat_sample ''abc'') = Some ''invalid syntax'' \<and>
   gain (isrc world0) = Finite 16 \<and>
   filter is_SetGain
     (events_since world0 (fst (servePNG ParseFloat_sample request_abc world0 NewResponseWriter))) =
     [SetGain (Finite 0)] \<and>
   gain (isrc (fst (servePNG ParseFloat_sample request_abc world0 NewResponseWriter))) = Finite 0"
proof -
  have h1: "\<not> Context_Done request_abc"
    and g1: "FormValue request_abc ''gain'' = ''abc''"
    and p1: "ParseFloat_sample ''abc'' = (Finite 0, Some ''invalid syntax'')"
    and g0: "gain (isrc world0) = Finite 16"
    by (simp_all add: request_abc_def request_defs world0_def)
  have ne: "float_ne (Finite 0) (Finite 16)"
    by (simp add: float_ne_def)
  show ?thesis
    by (simp add: servePNG_SetGain [OF h1] servePNG_gain [OF h1] h1 g1 p1 g0 ne)
qed

section \<open>The first read\<close>

text \<open>
  Claim C8. \<^verbatim>\<open>main\<close> creates the image source with a \<^verbatim>\<open>nil\<close> published slot. As
  long as the acquisition thread has published no frame (it failed to start, or every
  frame so far had a bad status or failed to encode), a request that is not cancelled is
  answered with status 200 and an empty body: the handler makes one write, of zero bytes,
  and no error response.
\<close>

theorem C8_read_before_first_commit:
  "\<forall>f \<in> set (frames (thread env)). \<not> commits f \<Longrightarrow> \<not> Context_Done r \<Longrightarrow>
   published (snd (cameraThread (thread env) (initial_world env))) = [] \<and>
   snd (servePNG pf r (snd (cameraThread (thread env) (initial_world env))) NewResponseWriter) =
     \<lparr>header_ContentType = None, sent = Some (200, None), body = []\<rparr> \<and>
   status_code
     (snd (servePNG pf r (snd (cameraThread (thread env) (initial_world env))) NewResponseWriter)) = 200 \<and>
   filter is_ResponseWrite
     (events_since (snd (cameraThread (thread env) (initial_world env)))
        (fst (servePNG pf r (snd (cameraThread (thread env) (initial_world env)))
               NewResponseWriter))) = [ResponseWrite []]"
proof -
  assume nc: "\<forall>f \<in> set (frames (thread env)). \<not> commits f" and live: "\<not> Context_Done r"
  let ?w = "snd (cameraThread (thread env) (initial_world env))"
  have "front (out (isrc ?w)) = front (out (isrc (initial_world env)))"
    using cameraThread_no_commit [OF nc] by simp
  then have f: "front (out (isrc ?w)) = None"
    by (simp add: initial_world_def)
  then have p: "published ?w = []"
    by (simp add: published_def slice_bytes_def)
  have r: "snd (servePNG pf r ?w NewResponseWriter) =
      \<lparr>header_ContentType = None, sent = Some (200, None), body = []\<rparr>"
    by (simp add: servePNG_response [OF live] p Write_empty)
  have ev: "filter is_ResponseWrite
     (events_since ?w (fst (servePNG pf r ?w NewResponseWriter))) = [ResponseWrite []]"
    by (simp add: servePNG_events [OF live] p gain_events_def exposure_events_def write_log_def
          is_ResponseWrite_def split: option.splits)
  from p r ev show ?thesis
    by (simp add: status_code_def)
qed

theorem C8_witness:
  "\<not> commits (timeout_frame 1) \<and> \<not> commits (failed_frame 2 [0xDE]) \<and>
   \<not> Context_Done request20 \<and>
   frames (thread main_env_timeouts) = [timeout_frame 1, failed_frame 2 [0xDE]] \<and>
   snd (servePNG ParseFloat_sample request20
          (snd (cameraThread (thread main_env_timeouts) (initial_world main_env_timeouts)))
          NewResponseWriter) =
     \<lparr>header_ContentType = None, sent = Some (200, None), body = []\<rparr>"
proof -
  have fr: "frames (thread main_env_timeouts) = [timeout_frame 1, failed_frame 2 [0xDE]]"
    by (simp add: main_env_timeouts_def)
  have n1: "\<not> commits (timeout_frame 1)" and n2: "\<not> commits (failed_frame 2 [0xDE])"
    by (simp_all add: commits_def timeout_frame_def failed_frame_def)
  have nc: "\<forall>f \<in> set (frames (thread main_env_timeouts)). \<not> commits f"
    using n1 n2 by (simp add: fr)
  have live: "\<not> Context_Done request20"
    by (simp add: request20_def query_def)
  from C8_read_before_first_commit [OF nc live, of ParseFloat_sample]
  show ?thesis
    using n1 n2 live fr by simp
qed

section \<open>Published slices are never written again\<close>

text \<open>
  Claim C10. An iteration that publishes sets the published slot to a slice that
  \<^verbatim>\<open>make\<close> has just allocated, at an address not in use before, holding the contents
  of the write buffer, and leaves the write buffer empty; no slice allocated earlier is
  changed. Hence, in any run of loop iterations and requests from startup, a slice that
  is the published slot at some moment is an allocated one and keeps its bytes for the
  rest of the run, whatever is published later.
\<close>

theorem C10_commit_publishes_fresh_slice:
  "(commits f \<longrightarrow>
      front (out (isrc (iteration f w))) = Some (brk w) \<and>
      brk (iteration f w) = Suc (brk w) \<and>
      heap (iteration f w) (brk w) = back (out (isrc w)) @ encoded f \<and>
      published (iteration f w) = back (out (isrc w)) @ encoded f \<and>
      back (out (isrc (iteration f w))) = [] \<and>
      (\<forall>a. a < brk w \<longrightarrow> heap (iteration f w) a = heap w a)) \<and>
   (front (out (isrc (run pf acts (initial_world env)))) = Some a \<longrightarrow>
      a < brk (run pf acts (initial_world env)) \<and>
      heap (run pf acts' (run pf acts (initial_world env))) a =
        heap (run pf acts (initial_world env)) a)"
proof -
  have "front_allocated (run pf acts (initial_world env))"
    by (rule run_front_allocated) (rule initial_front_allocated)
  then have alloc: "front (out (isrc (run pf acts (initial_world env)))) = Some a \<Longrightarrow>
      a < brk (run pf acts (initial_world env))"
    by (simp add: front_allocated_def)
  have commit: "commits f \<Longrightarrow>
      isrc (iteration f w) = (isrc w)\<lparr>out := \<lparr>front = Some (brk w), back = []\<rparr>\<rparr> \<and>
      heap (iteration f w) = (heap w)(brk w := back (out (isrc w)) @ encoded f) \<and>
      brk (iteration f w) = Suc (brk w)"
    by (simp add: commits_def iteration_publish)
  have pub: "commits f \<Longrightarrow> published (iteration f w) = back (out (isrc w)) @ encoded f"
    by (simp add: commits_def published_publish)
  from alloc commit pub show ?thesis
    by (simp add: run_heap_old iteration_heap_old)
qed

theorem C10_witness:
  "commits (good_frame 2 [0x89, 0x50]) \<and>
   front (out (isrc (iteration (good_frame 2 [0x89, 0x50]) world0))) = Some 0 \<and>
   published (iteration (good_frame 2 [0x89, 0x50]) world0) = [0x89, 0x50] \<and>
   back (out (isrc (iteration (good_frame 2 [0x89, 0x50]) world0))) = [] \<and>
   front (out (isrc (run ParseFloat_sample acts_one (initial_world main_env0)))) = Some 0 \<and>
   heap (run ParseFloat_sample acts_more (run ParseFloat_sample acts_one (initial_world main_env0))) 0 =
     [0x89, 0x50]"
proof -
  have c: "commits (good_frame 2 [0x89, 0x50])"
    by (simp add: commits_def good_frame_def)
  have w0: "brk world0 = 0" "back (out (isrc world0)) = []"
    by (simp_all add: world0_def)
  have e: "encoded (good_frame 2 [0x89, 0x50]) = [0x89, 0x50]"
    by (simp add: good_frame_def)
  from C10_commit_publishes_fresh_slice [where f = "good_frame 2 [0x89, 0x50]" and w = world0
      and pf = ParseFloat_sample and acts = acts_one and env = main_env0 and a = 0
      and acts' = acts_more]
  show ?thesis
    using c w0 e run_acts_one by simp
qed

section \<open>Startup failures\<close>

text \<open>
  Claim C5, as amended. An error of \<^verbatim>\<open>GetNumDevices\<close> and the absence of devices abort
  the process with a diagnostic. With at least one device \<^verbatim>\<open>main\<close> goes on to serve,
  whatever \<^verbatim>\<open>NewCamera\<close> returned and whatever happens in the acquisition thread:
  \<^verbatim>\<open>main\<close> drops the error of \<^verbatim>\<open>NewCamera\<close> and the result of
  \<^verbatim>\<open>cameraThread\<close>. An error of \<^verbatim>\<open>CreateStream\<close> or of one of the two
  \<^verbatim>\<open>NewBuffer\<close> calls makes \<^verbatim>\<open>cameraThread\<close> return that error before acquisition
  starts, closing the stream when it was created.
\<close>

theorem C5_startup_failures:
  "(snd (GetNumDevices_result env) = Some e \<longrightarrow> main env = Fatal e) \<and>
   (GetNumDevices_result env = (0, None) \<longrightarrow> main env = Fatal ''No devices found. Exiting.'') \<and>
   (snd (GetNumDevices_result env) = None \<and> 0 < fst (GetNumDevices_result env) \<longrightarrow>
      main env =
        Serving (emit (Log ''Listening...'' [])
                  (snd (cameraThread (thread env) (initial_world env))))) \<and>
   (CreateStream_err tenv = Some e \<longrightarrow>
      cameraThread tenv w = (Returned (Some e), emit CreateStream w)) \<and>
   (CreateStream_err tenv = None \<and> snd (NewBuffer_result tenv 0) = Some e \<longrightarrow>
      cameraThread tenv w =
        (Returned (Some e),
         w\<lparr>stream := [],
           trace := trace w @ [CreateStream, NewBuffer (payloadSize (isrc w)), StreamClose]\<rparr>)) \<and>
   (CreateStream_err tenv = None \<and> NewBuffer_result tenv 0 = (b, None) \<and>
    snd (NewBuffer_result tenv 1) = Some e \<longrightarrow>
      cameraThread tenv w =
        (Returned (Some e),
         w\<lparr>stream := [b],
           trace := trace w @ [CreateStream, NewBuffer (payloadSize (isrc w)), PushBuffer b,
                               NewBuffer (payloadSize (isrc w)), StreamClose]\<rparr>))"
proof -
  have m1: "snd (GetNumDevices_result env) = Some e \<Longrightarrow> main env = Fatal e"
    by (cases "GetNumDevices_result env") (simp add: main_def)
  have m2: "GetNumDevices_result env = (0, None) \<Longrightarrow>
      main env = Fatal ''No devices found. Exiting.''"
    by (simp add: main_def)
  have m3: "snd (GetNumDevices_result env) = None \<Longrightarrow> 0 < fst (GetNumDevices_result env) \<Longrightarrow>
      main env =
        Serving (emit (Log ''Listening...'' [])
                  (snd (cameraThread (thread env) (initial_world env))))"
    by (cases "GetNumDevices_result env") (simp add: main_def)
  from m1 m2 m3 show ?thesis
    by (simp add: cameraThread_no_stream cameraThread_no_first_buffer
          cameraThread_no_second_buffer)
qed

theorem C5_witness:
  "snd (GetNumDevices_result (main_env0\<lparr>GetNumDevices_result := (0, Some ''no bus'')\<rparr>)) =
     Some ''no bus'' \<and>
   main (main_env0\<lparr>GetNumDevices_result := (0, Some ''no bus'')\<rparr>) = Fatal ''no bus'' \<and>
   GetNumDevices_result (main_env0\<lparr>GetNumDevices_result := (0, None)\<rparr>) = (0, None) \<and>
   main (main_env0\<lparr>GetNumDevices_result := (0, None)\<rparr>) = Fatal ''No devices found. Exiting.'' \<and>
   snd (GetNumDevices_result main_env_no_stream) = None \<and>
   0 < fst (GetNumDevices_result main_env_no_stream) \<and>
   main main_env_no_stream =
     Serving (emit (Log ''Listening...'' [])
               (snd (cameraThread (thread main_env_no_stream) (initial_world main_env_no_stream)))) \<and>
   CreateStream_err (thread main_env_no_stream) = Some ''no stream'' \<and>
   cameraThread (thread main_env_no_stream) world0 =
     (Returned (Some ''no stream''), emit CreateStream world0) \<and>
   CreateStream_err thread_env_no_buffer = None \<and>
   snd (NewBuffer_result thread_env_no_buffer 0) = Some ''no memory'' \<and>
   fst (cameraThread thread_env_no_buffer world0) = Returned (Some ''no memory'') \<and>
   CreateStream_err thread_env_one_buffer = None \<and>
   NewBuffer_result thread_env_one_buffer 0 = (1, None) \<and>
   snd (NewBuffer_result thread_env_one_buffer 1) = Some ''no memory'' \<and>
   fst (cameraThread thread_env_one_buffer world0) = Returned (Some ''no memory'')"
proof -
  have h1: "snd (GetNumDevices_result (main_env0\<lparr>GetNumDevices_result := (0, Some ''no bus'')\<rparr>)) =
     Some ''no bus''"
    and h2: "GetNumDevices_result (main_env0\<lparr>GetNumDevices_result := (0, None)\<rparr>) = (0, None)"
    and h3: "CreateStream_err (thread main_env_no_stream) = Some ''no stream''"
    and h4: "snd (GetNumDevices_result main_env_no_stream) = None"
      "0 < fst (GetNumDevices_result main_env_no_stream)"
    and h5: "CreateStream_err thread_env_no_buffer = None"
      "snd (NewBuffer_result thread_env_no_buffer 0) = Some ''no memory''"
    and h6: "CreateStream_err thread_env_one_buffer = None"
      "NewBuffer_result thread_env_one_buffer 0 = (1, None)"
      "snd (NewBuffer_result thread_env_one_buffer 1) = Some ''no memory''"
    by (simp_all add: main_env_no_stream_def main_env0_def thread_env_no_buffer_def
          thread_env_one_buffer_def thread_env0_def)
  from C5_startup_failures [where env = "main_env0\<lparr>GetNumDevices_result := (0, Some ''no bus'')\<rparr>"
      and e = "''no bus''" and tenv = "thread main_env_no_stream" and w = world0]
    C5_startup_failures [where env = "main_env0\<lparr>GetNumDevices_result := (0, None)\<rparr>"]
    C5_startup_failures [where env = main_env_no_stream and e = "''no stream''"
      and tenv = "thread main_env_no_stream" and w = world0]
    C5_startup_failures [where tenv = thread_env_no_buffer and e = "''no memory''" and w = world0]
    C5_startup_failures [where tenv = thread_env_one_buffer and e = "''no memory''" and w = world0
      and b = 1]
  show ?thesis
    using h1 h2 h3 h4 h5 h6 by simp
qed

text \<open>The claim as stated fails: with one device and a failing \<^verbatim>\<open>CreateStream\<close>
  the thread returns the error and the process serves; with a camera that cannot be
  opened the process serves as well.\<close>

theorem C5_counterexample:
  "CreateStream_err (thread main_env_no_stream) = Some ''no stream'' \<and>
   cameraThread (thread main_env_no_stream) (initial_world main_env_no_stream) =
     (Returned (Some ''no stream''), emit CreateStream (initial_world main_env_no_stream)) \<and>
   main main_env_no_stream =
     Serving (emit (Log ''Listening...'' [])
               (emit CreateStream (initial_world main_env_no_stream))) \<and>
   NewCamera_err main_env_no_camera = Some ''no camera'' \<and>
   main main_env_no_camera =
     Serving (emit (Log ''Listening...'' [])
               (snd (cameraThread (thread main_env_no_camera) (initial_world main_env_no_camera))))"
proof -
  have c: "CreateStream_err (thread main_env_no_stream) = Some ''no stream''"
    by (simp add: main_env_no_stream_def)
  have n: "GetNumDevices_result main_env_no_stream = (1, None)"
    "GetNumDevices_result main_env_no_camera = (1, None)"
    "NewCamera_err main_env_no_camera = Some ''no camera''"
    by (simp_all add: main_env_no_stream_def main_env_no_camera_def main_env0_def)
  show ?thesis
    by (simp add: c n main_def cameraThread_no_stream [OF c])
qed

section \<open>The publish lock\<close>

text \<open>
  Claim C4, as amended. A request that is not cancelled locks \<^verbatim>\<open>is.out.mu\<close>, passes
  the published slice to the response writer with the lock held, and unlocks only when
  the handler returns: the write of the response body lies inside the critical section,
  and no copy of the snapshot is made. The publication of a frame starts by locking the
  same mutex, so it is blocked while a reader is at its write.
\<close>

theorem C4_reader_holds_lock_across_write:
  "\<not> Context_Done r \<Longrightarrow>
   events_since w (fst (servePNG pf r w rw)) =
     reader_prefix pf r w @ [ResponseWrite (published w)] @ write_log r @
       [Unlock Out_mu, Unlock Mu] \<and>
   holds False Out_mu (reader_prefix pf r w) \<and>
   holds False Mu (reader_prefix pf r w) \<and>
   holds False Out_mu (reader_prefix pf r w @ [ResponseWrite (published w)]) \<and>
   write_while_held False Out_mu (events_since w (fst (servePNG pf r w rw))) \<and>
   blocked (reader_prefix pf r w) (Lock Out_mu) \<and>
   blocked (reader_prefix pf r w @ [ResponseWrite (published w)]) (Lock Out_mu) \<and>
   (commits f \<longrightarrow>
      events_since w' (iteration f w') =
        [TimeoutPopBuffer, PushBuffer (popped f), Lock Out_mu, Unlock Out_mu])"
proof -
  assume live: "\<not> Context_Done r"
  have ev: "events_since w (fst (servePNG pf r w rw)) =
     reader_prefix pf r w @ [ResponseWrite (published w)] @ write_log r @
       [Unlock Out_mu, Unlock Mu]"
    by (simp add: servePNG_events [OF live] reader_prefix_def)
  have h1: "holds False Out_mu (reader_prefix pf r w)"
    by (simp add: reader_prefix_def holds_append holds_gain_events holds_exposure_events)
  have h2: "holds False Mu (reader_prefix pf r w)"
    by (simp add: reader_prefix_def holds_append holds_Mu_gain_events holds_Mu_exposure_events)
  have h3: "holds False Out_mu (reader_prefix pf r w @ [ResponseWrite (published w)])"
    by (simp add: holds_append h1)
  have nw: "\<not> write_while_held False Out_mu (reader_prefix pf r w)"
    by (simp add: reader_prefix_def write_while_held_append gain_events_def exposure_events_def)
  have ww: "write_while_held False Out_mu (events_since w (fst (servePNG pf r w rw)))"
    by (simp add: ev write_while_held_append h1 nw)
  have c: "commits f \<Longrightarrow> events_since w' (iteration f w') =
        [TimeoutPopBuffer, PushBuffer (popped f), Lock Out_mu, Unlock Out_mu]"
    by (rule events_since_append) (simp add: commits_def iteration_trace_publish)
  from ev h1 h2 h3 ww c show ?thesis
    by (simp add: blocked_def)
qed

theorem C4_witness:
  "\<not> Context_Done request20 \<and> commits (good_frame 2 [0x89, 0x50]) \<and>
   write_while_held False Out_mu
     (events_since world0 (fst (servePNG ParseFloat_sample request20 world0 NewResponseWriter))) \<and>
   blocked (reader_prefix ParseFloat_sample request20 world0) (Lock Out_mu) \<and>
   events_since world0 (iteration (good_frame 2 [0x89, 0x50]) world0) =
     [TimeoutPopBuffer, PushBuffer (popped (good_frame 2 [0x89, 0x50])), Lock Out_mu,
      Unlock Out_mu]"
proof -
  have live: "\<not> Context_Done request20"
    by (simp add: request20_def query_def)
  have c: "commits (good_frame 2 [0x89, 0x50])"
    by (simp add: commits_def good_frame_def)
  from C4_reader_holds_lock_across_write [OF live, where pf = ParseFloat_sample and w = world0
      and rw = NewResponseWriter and f = "good_frame 2 [0x89, 0x50]" and w' = world0]
  show ?thesis
    using live c by blast
qed

text \<open>The claim as stated fails: the request without parameters writes its response
  between locking and unlocking \<^verbatim>\<open>is.out.mu\<close>, and after its first two events the
  lock step of the publication is blocked.\<close>

theorem C4_counterexample:
  "events_since world0 (fst (servePNG ParseFloat_sample request_plain world0 NewResponseWriter)) =
     [Lock Mu, Lock Out_mu, ResponseWrite [], Unlock Out_mu, Unlock Mu] \<and>
   write_while_held False Out_mu
     (events_since world0 (fst (servePNG ParseFloat_sample request_plain world0 NewResponseWriter))) \<and>
   blocked [Lock Mu, Lock Out_mu] (Lock Out_mu) \<and>
   events_since world0 (iteration (good_frame 2 [0x89, 0x50]) world0) =
     [TimeoutPopBuffer, PushBuffer 2, Lock Out_mu, Unlock Out_mu]"
proof -
  have live: "\<not> Context_Done request_plain"
    by (simp add: request_plain_def query_def)
  have p: "published world0 = []"
    by (simp add: published_def slice_bytes_def world0_def)
  have g: "gain_events ParseFloat_sample request_plain world0 = []"
    and x: "exposure_events ParseFloat_sample request_plain world0 = []"
    and l: "write_log request_plain = []"
    by (simp_all add: gain_events_def exposure_events_def write_log_def request_plain_def
          query_def)
  have ev: "events_since world0
      (fst (servePNG ParseFloat_sample request_plain world0 NewResponseWriter)) =
     [Lock Mu, Lock Out_mu, ResponseWrite [], Unlock Out_mu, Unlock Mu]"
    by (simp add: servePNG_events [OF live] p g x l)
  have it: "events_since world0 (iteration (good_frame 2 [0x89, 0x50]) world0) =
     [TimeoutPopBuffer, PushBuffer 2, Lock Out_mu, Unlock Out_mu]"
    by (rule events_since_append) (simp add: iteration_trace_publish good_frame_def)
  show ?thesis
    by (simp add: ev it blocked_def)
qed

section \<open>Status of the responses\<close>

text \<open>
  Claim C9, as amended. In the handler that acquires one frame per request, an error of
  \<^verbatim>\<open>CreateStream\<close> or of \<^verbatim>\<open>NewBuffer\<close> and a buffer status other than Success are
  answered with status 500 and a plain-text message. An error of the encoder is only
  logged: when the device calls succeeded the status is 200 and the body is what the
  encoder wrote, whether or not it returned an error. The handler over the image source
  always answers with status 200.
\<close>

theorem C9_status_of_responses:
  "(cam_CreateStream_err r = Some e \<longrightarrow>
      sent (fst (servePNG_camera x g r NewResponseWriter)) = plain_500 \<and>
      take (Suc (length e)) (body (fst (servePNG_camera x g r NewResponseWriter))) =
        bytes_of e @ [0x0A]) \<and>
   (cam_CreateStream_err r = None \<and> snd (cam_NewBuffer_result r) = Some e \<longrightarrow>
      sent (fst (servePNG_camera x g r NewResponseWriter)) = plain_500 \<and>
      take (Suc (length e)) (body (fst (servePNG_camera x g r NewResponseWriter))) =
        bytes_of e @ [0x0A]) \<and>
   (cam_CreateStream_err r = None \<and> snd (cam_NewBuffer_result r) = None \<and>
    cam_status r \<noteq> BUFFER_STATUS_SUCCESS \<longrightarrow>
      fst (servePNG_camera x g r NewResponseWriter) =
        \<lparr>header_ContentType = Some ''text/plain; charset=utf-8'',
         sent = plain_500, body = bytes_of ''buffer error'' @ [0x0A]\<rparr>) \<and>
   (cam_CreateStream_err r = None \<and> snd (cam_NewBuffer_result r) = None \<and>
    cam_status r = BUFFER_STATUS_SUCCESS \<longrightarrow>
      status_code (fst (servePNG_camera x g r NewResponseWriter)) = 200 \<and>
      body (fst (servePNG_camera x g r NewResponseWriter)) = concat (cam_encode_writes r)) \<and>
   status_code (snd (servePNG pf rq w NewResponseWriter)) = 200"
  by (simp add: servePNG_camera_no_stream servePNG_camera_no_buffer servePNG_camera_bad_status
        servePNG_camera_encode servePNG_status)

theorem C9_witness:
  "cam_CreateStream_err cam_no_stream = Some ''no stream'' \<and>
   sent (fst (servePNG_camera (Finite 10000) (Finite 16) cam_no_stream NewResponseWriter)) =
     plain_500 \<and>
   cam_CreateStream_err cam_no_buffer = None \<and>
   snd (cam_NewBuffer_result cam_no_buffer) = Some ''no memory'' \<and>
   sent (fst (servePNG_camera (Finite 10000) (Finite 16) cam_no_buffer NewResponseWriter)) =
     plain_500 \<and>
   cam_CreateStream_err cam_timeout = None \<and> snd (cam_NewBuffer_result cam_timeout) = None \<and>
   cam_status cam_timeout \<noteq> BUFFER_STATUS_SUCCESS \<and>
   sent (fst (servePNG_camera (Finite 10000) (Finite 16) cam_timeout NewResponseWriter)) =
     plain_500 \<and>
   cam_CreateStream_err cam_encode_fails = None \<and>
   snd (cam_NewBuffer_result cam_encode_fails) = None \<and>
   cam_status cam_encode_fails = BUFFER_STATUS_SUCCESS \<and>
   status_code
     (fst (servePNG_camera (Finite 10000) (Finite 16) cam_encode_fails NewResponseWriter)) = 200 \<and>
   status_code (snd (servePNG ParseFloat_sample request_abc world0 NewResponseWriter)) = 200"
proof -
  have h:
    "cam_CreateStream_err cam_no_stream = Some ''no stream''"
    "cam_CreateStream_err cam_no_buffer = None"
    "snd (cam_NewBuffer_result cam_no_buffer) = Some ''no memory''"
    "cam_CreateStream_err cam_timeout = None" "snd (cam_NewBuffer_result cam_timeout) = None"
    "cam_status cam_timeout \<noteq> BUFFER_STATUS_SUCCESS"
    "cam_CreateStream_err cam_encode_fails = None"
    "snd (cam_NewBuffer_result cam_encode_fails) = None"
    "cam_status cam_encode_fails = BUFFER_STATUS_SUCCESS"
    by (simp_all add: cam_no_stream_def cam_no_buffer_def cam_timeout_def cam_encode_fails_def)
  from C9_status_of_responses [where r = cam_no_stream and e = "''no stream''"
      and x = "Finite 10000" and g = "Finite 16" and pf = ParseFloat_sample and rq = request_abc
      and w = world0]
    C9_status_of_responses [where r = cam_no_buffer and e = "''no memory''"
      and x = "Finite 10000" and g = "Finite 16"]
    C9_status_of_responses [where r = cam_timeout and x = "Finite 10000" and g = "Finite 16"]
    C9_status_of_responses [where r = cam_encode_fails and x = "Finite 10000" and g = "Finite 16"]
  show ?thesis
    using h by simp
qed

text \<open>The claim as stated fails: every device call succeeds, the encoder writes four
  bytes and returns an error, and the response has status 200.\<close>

theorem C9_counterexample:
  "cam_encode_err cam_encode_fails = Some ''write failed'' \<and>
   status_code
     (fst (servePNG_camera (Finite 10000) (Finite 16) cam_encode_fails NewResponseWriter)) = 200 \<and>
   body (fst (servePNG_camera (Finite 10000) (Finite 16) cam_encode_fails NewResponseWriter)) =
     [0x89, 0x50, 0x4E, 0x47] \<and>
   filter (\<lambda>e. e = Log ''write failed'' [])
     (snd (servePNG_camera (Finite 10000) (Finite 16) cam_encode_fails NewResponseWriter)) =
     [Log ''write failed'' []]"
  by (simp add: servePNG_camera_def cam_encode_fails_def Let_def Write_def WriteHeader_def
        NewResponseWriter_def status_code_def)

end
